theory Spec2Isabelle
  imports Complex_Main
begin

section \<open>JavaScript numbers\<close>

text \<open>
  The simulator (\<^verbatim>\<open>client/src/pages/simulator.tsx\<close>) computes with JavaScript
  numbers. A number is modelled as a real or one of the three non-finite values, so that a
  division by zero, \<^verbatim>\<open>0/0\<close> and a read past the end of an array are values of the
  model, as they are in the program. Finite arithmetic is exact: the rounding of binary64
  is left out, as is the sign of zero (a zero divisor counts as \<^verbatim>\<open>+0\<close>); only
  \<^verbatim>\<open>Math.exp\<close> and \<^verbatim>\<open>Math.pow\<close> leave the finite range as they do in binary64.
  What is proved on this model about the structure of a run (what is validated, what is
  committed and how it is rounded for display, which rule of the optimizer fires) does not
  depend on the rounding. Where an outcome hinges on the rounding of single operations
  (the number of samples, the cycle a sample falls into, the sums of the AUC integrator),
  the operations are modelled bit for bit in the two sections on binary64 arithmetic.
\<close>

datatype jsnum = Fin real | PInf | NInf | NaN

fun sign_of :: "jsnum \<Rightarrow> real" where
  "sign_of (Fin a) = sgn a"
| "sign_of PInf = 1"
| "sign_of NInf = - 1"
| "sign_of NaN = 0"

definition inf_of_sign :: "real \<Rightarrow> jsnum" where
  "inf_of_sign s = (if s = 0 then NaN else if 0 < s then PInf else NInf)"

fun is_nan :: "jsnum \<Rightarrow> bool" where
  "is_nan NaN = True"
| "is_nan _ = False"

fun is_finite :: "jsnum \<Rightarrow> bool" where
  "is_finite (Fin _) = True"
| "is_finite _ = False"

instantiation jsnum :: "{plus, minus, uminus, times, inverse, ord}"
begin

fun uminus_jsnum :: "jsnum \<Rightarrow> jsnum" where
  "uminus_jsnum (Fin a) = Fin (- a)"
| "uminus_jsnum PInf = NInf"
| "uminus_jsnum NInf = PInf"
| "uminus_jsnum NaN = NaN"

fun plus_jsnum :: "jsnum \<Rightarrow> jsnum \<Rightarrow> jsnum" where
  "plus_jsnum (Fin a) (Fin b) = Fin (a + b)"
| "plus_jsnum NaN _ = NaN"
| "plus_jsnum _ NaN = NaN"
| "plus_jsnum PInf NInf = NaN"
| "plus_jsnum NInf PInf = NaN"
| "plus_jsnum PInf _ = PInf"
| "plus_jsnum _ PInf = PInf"
| "plus_jsnum NInf _ = NInf"
| "plus_jsnum _ NInf = NInf"

definition minus_jsnum :: "jsnum \<Rightarrow> jsnum \<Rightarrow> jsnum" where
  "minus_jsnum x y = x + (- y)"

fun times_jsnum :: "jsnum \<Rightarrow> jsnum \<Rightarrow> jsnum" where
  "times_jsnum (Fin a) (Fin b) = Fin (a * b)"
| "times_jsnum NaN _ = NaN"
| "times_jsnum _ NaN = NaN"
| "times_jsnum x y = inf_of_sign (sign_of x * sign_of y)"

fun divide_jsnum :: "jsnum \<Rightarrow> jsnum \<Rightarrow> jsnum" where
  "divide_jsnum (Fin a) (Fin b) = (if b = 0 then inf_of_sign a else Fin (a / b))"
| "divide_jsnum NaN _ = NaN"
| "divide_jsnum _ NaN = NaN"
| "divide_jsnum (Fin a) _ = Fin 0"
| "divide_jsnum x (Fin b) = inf_of_sign (sign_of x * (if 0 \<le> b then 1 else - 1))"
| "divide_jsnum _ _ = NaN"

definition inverse_jsnum :: "jsnum \<Rightarrow> jsnum" where
  "inverse_jsnum x = divide (Fin 1) x"

fun less_eq_jsnum :: "jsnum \<Rightarrow> jsnum \<Rightarrow> bool" where
  "less_eq_jsnum (Fin a) (Fin b) = (a \<le> b)"
| "less_eq_jsnum NaN _ = False"
| "less_eq_jsnum _ NaN = False"
| "less_eq_jsnum NInf _ = True"
| "less_eq_jsnum _ PInf = True"
| "less_eq_jsnum _ _ = False"

fun less_jsnum :: "jsnum \<Rightarrow> jsnum \<Rightarrow> bool" where
  "less_jsnum (Fin a) (Fin b) = (a < b)"
| "less_jsnum NaN _ = False"
| "less_jsnum _ NaN = False"
| "less_jsnum PInf _ = False"
| "less_jsnum _ NInf = False"
| "less_jsnum _ _ = True"

instance ..

end

text \<open>
  The results of \<^verbatim>\<open>Math.exp\<close> and \<^verbatim>\<open>Math.pow\<close> leave the range of binary64 for
  parameters the input fields accept: a magnitude from \<open>2\<^sup>1\<^sup>0\<^sup>2\<^sup>4 - 2\<^sup>9\<^sup>7\<^sup>0\<close> on rounds
  to an infinity, one up to \<open>2\<^sup>-\<^sup>1\<^sup>0\<^sup>7\<^sup>5\<close> to zero. \<open>in_range64\<close> keeps these two
  effects; the rounding of a result inside the range is left out.
\<close>

definition in_range64 :: "real \<Rightarrow> jsnum" where
  "in_range64 r =
     (if 2 ^ 1024 - 2 ^ 970 \<le> \<bar>r\<bar> then inf_of_sign r
      else if \<bar>r\<bar> \<le> 1 / 2 ^ 1075 then Fin 0
      else Fin r)"

text \<open>\<^verbatim>\<open>Math.exp\<close>, \<^verbatim>\<open>Math.floor\<close>, \<^verbatim>\<open>Math.round\<close>, \<^verbatim>\<open>Math.min\<close>,
  \<^verbatim>\<open>Math.max\<close>, \<^verbatim>\<open>Math.pow\<close> and the remainder operator \<^verbatim>\<open>%\<close>.\<close>

fun Math_exp :: "jsnum \<Rightarrow> jsnum" where
  "Math_exp (Fin a) = in_range64 (exp a)"
| "Math_exp PInf = PInf"
| "Math_exp NInf = Fin 0"
| "Math_exp NaN = NaN"

fun Math_floor :: "jsnum \<Rightarrow> jsnum" where
  "Math_floor (Fin a) = Fin (of_int \<lfloor>a\<rfloor>)"
| "Math_floor x = x"

fun Math_round :: "jsnum \<Rightarrow> jsnum" where
  "Math_round (Fin a) = Fin (of_int \<lfloor>a + 1 / 2\<rfloor>)"
| "Math_round x = x"

definition Math_min :: "jsnum \<Rightarrow> jsnum \<Rightarrow> jsnum" where
  "Math_min x y = (if is_nan x \<or> is_nan y then NaN else if x \<le> y then x else y)"

definition Math_max :: "jsnum \<Rightarrow> jsnum \<Rightarrow> jsnum" where
  "Math_max x y = (if is_nan x \<or> is_nan y then NaN else if x \<le> y then y else x)"

text \<open>\<^verbatim>\<open>Math.max(...xs)\<close> and \<^verbatim>\<open>Math.min(...xs)\<close>: the maximum of no argument is
  \<^verbatim>\<open>-Infinity\<close>, the minimum is \<^verbatim>\<open>Infinity\<close>.\<close>

definition Math_max_of :: "jsnum list \<Rightarrow> jsnum" where
  "Math_max_of xs = foldl Math_max NInf xs"

definition Math_min_of :: "jsnum list \<Rightarrow> jsnum" where
  "Math_min_of xs = foldl Math_min PInf xs"

definition is_integer :: "real \<Rightarrow> bool" where
  "is_integer e = (e = of_int \<lfloor>e\<rfloor>)"

definition is_odd_integer :: "real \<Rightarrow> bool" where
  "is_odd_integer e = (is_integer e \<and> odd \<lfloor>e\<rfloor>)"

fun Math_pow :: "jsnum \<Rightarrow> jsnum \<Rightarrow> jsnum" where
  "Math_pow b NaN = NaN"
| "Math_pow b (Fin e) =
     (if e = 0 then Fin 1
      else case b of
        NaN \<Rightarrow> NaN
      | PInf \<Rightarrow> (if 0 < e then PInf else Fin 0)
      | NInf \<Rightarrow> (if 0 < e then (if is_odd_integer e then NInf else PInf) else Fin 0)
      | Fin x \<Rightarrow>
          (if x = 0 then (if 0 < e then Fin 0 else PInf)
           else if 0 < x then in_range64 (x powr e)
           else if is_integer e
             then in_range64 ((if is_odd_integer e then - 1 else 1) * ((- x) powr e))
           else NaN))"
| "Math_pow b PInf =
     (case b of
        NaN \<Rightarrow> NaN
      | Fin x \<Rightarrow> (if 1 < \<bar>x\<bar> then PInf else if \<bar>x\<bar> = 1 then NaN else Fin 0)
      | _ \<Rightarrow> PInf)"
| "Math_pow b NInf =
     (case b of
        NaN \<Rightarrow> NaN
      | Fin x \<Rightarrow> (if 1 < \<bar>x\<bar> then Fin 0 else if \<bar>x\<bar> = 1 then NaN else PInf)
      | _ \<Rightarrow> Fin 0)"

definition js_trunc :: "real \<Rightarrow> int" where
  "js_trunc q = (if 0 \<le> q then \<lfloor>q\<rfloor> else \<lceil>q\<rceil>)"

fun js_rem :: "jsnum \<Rightarrow> jsnum \<Rightarrow> jsnum" where
  "js_rem (Fin n) (Fin d) = (if d = 0 then NaN else Fin (n - d * of_int (js_trunc (n / d))))"
| "js_rem (Fin n) PInf = Fin n"
| "js_rem (Fin n) NInf = Fin n"
| "js_rem _ _ = NaN"

text \<open>
  \<^verbatim>\<open>x.toFixed(f)\<close> gives the decimal string with \<open>f\<close> fraction digits nearest to
  \<open>x\<close>, the larger of two equally near ones (on the magnitude; the sign is put back),
  and the plain string of \<open>x\<close> from \<open>10\<^sup>2\<^sup>1\<close> on. The string is represented by
  the number it denotes, which is what \<^verbatim>\<open>parseFloat\<close> reads back from it.
\<close>

definition toFixed :: "nat \<Rightarrow> jsnum \<Rightarrow> jsnum" where
  "toFixed f x =
     (case x of
        Fin a \<Rightarrow>
          (if 10 ^ 21 \<le> \<bar>a\<bar> then Fin a
           else Fin (sgn a * of_int \<lfloor>\<bar>a\<bar> * 10 ^ f + 1 / 2\<rfloor> / 10 ^ f))
      | _ \<Rightarrow> x)"

text \<open>Reading \<^verbatim>\<open>xs[i]\<close> in arithmetic: past the end it is \<^verbatim>\<open>undefined\<close>, which
  every arithmetic operator turns into \<^verbatim>\<open>NaN\<close>.\<close>

definition js_at :: "jsnum list \<Rightarrow> nat \<Rightarrow> jsnum" where
  "js_at xs i = (if i < length xs then xs ! i else NaN)"

section \<open>Parameters and results\<close>

text \<open>
  \<^verbatim>\<open>DrugParams\<close> and \<^verbatim>\<open>InhibitorParams\<close> are the same interface; one record
  serves both. The parameters are finite numbers. \<^verbatim>\<open>numCycles\<close> is a count: the
  model covers the runs with a whole number of cycles. (The type of the field is
  \<^verbatim>\<open>number\<close> and its input handler clamps a value to \<open>[1, 10]\<close> without rounding it;
  with a fraction the loop reads an element of \<^verbatim>\<open>cycleData\<close> that does not exist and
  the run throws.)
\<close>

record DrugParams =
  dosingInterval :: real
  infusionTime :: real
  halfLife :: real
  maxConcentration :: real

type_synonym InhibitorParams = DrugParams

record PDParams =
  log2MIC0 :: real
  imax :: real
  ic50 :: real
  hillCoeff :: real

record SimParams =
  numCycles :: nat
  timeStep :: real

text \<open>The fields of \<^verbatim>\<open>Results\<close> are the strings \<^verbatim>\<open>toFixed\<close> returns, each
  represented by the number it denotes.\<close>

record Results =
  drugAUC :: jsnum
  inhibitorAUC :: jsnum
  exposureRatio :: jsnum
  inverseExposureRatio :: jsnum
  percentTOverMIC :: jsnum
  drugMinConc :: jsnum
  inhibitorMinConc :: jsnum
  kDrug :: jsnum
  kInhibitor :: jsnum

record ChartDataPoint =
  time :: jsnum
  drug :: jsnum
  inhibitor :: jsnum
  mic :: jsnum

text \<open>The four sample arrays, which the whole run and every cycle keep alike.\<close>

record Series =
  timePoints :: "jsnum list"
  drugConcentrations :: "jsnum list"
  inhibitorConcentrations :: "jsnum list"
  micValues :: "jsnum list"

text \<open>\<^verbatim>\<open>CycleResult\<close>; its four summary fields carry the names of the local variables
  they are assigned from, since \<^verbatim>\<open>Results\<close> has fields of the same names.\<close>

record CycleResult = Series +
  cycle :: nat
  cycleDrugAUC :: jsnum
  cycleInhibitorAUC :: jsnum
  cycleExposureRatio :: jsnum
  cyclePercentTOverMIC :: jsnum

record OptimizationTarget =
  minEffectiveConc :: real
  maxSafeConc :: real
  targetTOverMIC :: real

record OptimizationRecommendation =
  recommendedInterval :: jsnum
  recommendedDose :: jsnum
  expectedTOverMIC :: jsnum
  expectedPeakConc :: jsnum
  expectedTroughConc :: jsnum
  riskAssessment :: string
  confidence :: jsnum

section \<open>Concentration model, dynamic MIC and AUC\<close>

definition calculateDecayConstant :: "jsnum \<Rightarrow> jsnum" where
  "calculateDecayConstant hl = Fin (ln 2) / hl"

definition calculateMinConcentration :: "jsnum \<Rightarrow> jsnum \<Rightarrow> jsnum \<Rightarrow> jsnum \<Rightarrow> jsnum" where
  "calculateMinConcentration maxConc decayConstant interval infusion =
     maxConc * Math_exp (- decayConstant * (interval - infusion))"

definition concentrationDuringInfusion ::
  "jsnum \<Rightarrow> jsnum \<Rightarrow> jsnum \<Rightarrow> jsnum \<Rightarrow> jsnum \<Rightarrow> jsnum" where
  "concentrationDuringInfusion t tCycleStart infusion minConc maxConc =
     minConc + (maxConc - minConc) * ((t - tCycleStart) / infusion)"

definition concentrationDuringDecay :: "jsnum \<Rightarrow> jsnum \<Rightarrow> jsnum \<Rightarrow> jsnum \<Rightarrow> jsnum" where
  "concentrationDuringDecay t tInfusionEnd maxConc decayConstant =
     maxConc * Math_exp (- decayConstant * (t - tInfusionEnd))"

definition calculateLog2MIC :: "jsnum \<Rightarrow> jsnum \<Rightarrow> jsnum \<Rightarrow> jsnum \<Rightarrow> jsnum \<Rightarrow> jsnum" where
  "calculateLog2MIC inhibitorConc l0 im ic hill =
     (let numerator = im * Math_pow inhibitorConc hill;
          denominator = Math_pow inhibitorConc hill + Math_pow ic hill
      in l0 - numerator / denominator)"

text \<open>The dynamic MIC of the simulation loop: \<^verbatim>\<open>Math.pow(2, log2MIC)\<close>.\<close>

definition dynamicMIC :: "PDParams \<Rightarrow> jsnum \<Rightarrow> jsnum" where
  "dynamicMIC pd inhibitorConc =
     Math_pow (Fin 2)
       (calculateLog2MIC inhibitorConc (Fin (log2MIC0 pd)) (Fin (imax pd)) (Fin (ic50 pd))
          (Fin (hillCoeff pd)))"

text \<open>\<^verbatim>\<open>calculateAUC\<close>: the loop \<^verbatim>\<open>for (i = 1; i < timePoints.length; i++)\<close>.\<close>

definition auc_step :: "jsnum list \<Rightarrow> jsnum list \<Rightarrow> jsnum \<Rightarrow> nat \<Rightarrow> jsnum" where
  "auc_step tps concs auc i =
     (let dt = js_at tps i - js_at tps (i - 1);
          avgConc = (js_at concs (i - 1) + js_at concs i) / Fin 2
      in auc + avgConc * dt)"

definition calculateAUC :: "jsnum list \<Rightarrow> jsnum list \<Rightarrow> jsnum" where
  "calculateAUC tps concs = foldl (auc_step tps concs) (Fin 0) [1..<length tps]"

section \<open>Parameter validation\<close>

definition validateDrugParams :: "DrugParams \<Rightarrow> string list" where
  "validateDrugParams d =
     (if dosingInterval d \<le> 0 then [''Dosing interval must be positive''] else []) @
     (if infusionTime d < 0 then [''Infusion time must be non-negative''] else []) @
     (if infusionTime d > dosingInterval d
        then [''Infusion time cannot exceed dosing interval''] else []) @
     (if halfLife d \<le> 0 then [''Half-life must be positive''] else []) @
     (if maxConcentration d \<le> 0 then [''Max concentration must be positive''] else [])"

definition validateInhibitorParams :: "InhibitorParams \<Rightarrow> string list" where
  "validateInhibitorParams d =
     (if dosingInterval d \<le> 0 then [''Dosing interval must be positive''] else []) @
     (if infusionTime d < 0 then [''Infusion time must be non-negative''] else []) @
     (if infusionTime d > dosingInterval d
        then [''Infusion time cannot exceed dosing interval''] else []) @
     (if halfLife d \<le> 0 then [''Half-life must be positive''] else []) @
     (if maxConcentration d \<le> 0 then [''Max concentration must be positive''] else [])"

section \<open>The simulation loop\<close>

text \<open>The decay constant and the trough concentration of a regimen, which
  \<^verbatim>\<open>runSimulation\<close> computes once before the loop (\<^verbatim>\<open>kDrug\<close>, \<^verbatim>\<open>drugMinConc\<close>
  and their inhibitor twins).\<close>

definition decayConstantOf :: "DrugParams \<Rightarrow> jsnum" where
  "decayConstantOf d = calculateDecayConstant (Fin (halfLife d))"

definition minConcOf :: "DrugParams \<Rightarrow> jsnum" where
  "minConcOf d =
     calculateMinConcentration (Fin (maxConcentration d)) (decayConstantOf d)
       (Fin (dosingInterval d)) (Fin (infusionTime d))"

text \<open>The concentration of one regimen at time \<open>t\<close>: the \<^verbatim>\<open>if\<close> of the loop body,
  written twice in the source, once for the drug and once for the inhibitor.\<close>

definition concentrationAt :: "DrugParams \<Rightarrow> real \<Rightarrow> jsnum" where
  "concentrationAt d t =
     (let currentCycle = Math_floor (Fin t / Fin (dosingInterval d));
          timeInCycle = js_rem (Fin t) (Fin (dosingInterval d))
      in if timeInCycle \<le> Fin (infusionTime d)
         then concentrationDuringInfusion (Fin t) (currentCycle * Fin (dosingInterval d))
                (Fin (infusionTime d)) (minConcOf d) (Fin (maxConcentration d))
         else (let infusionEndTime = currentCycle * Fin (dosingInterval d) + Fin (infusionTime d)
               in concentrationDuringDecay (Fin t) infusionEndTime (Fin (maxConcentration d))
                    (decayConstantOf d)))"

record LoopState = Series +
  tOverMIC :: "jsnum list"
  cycleData :: "CycleResult list"

definition emptyCycle :: "nat \<Rightarrow> CycleResult" where
  "emptyCycle c =
     \<lparr>timePoints = [], drugConcentrations = [], inhibitorConcentrations = [], micValues = [],
      cycle = c + 1, cycleDrugAUC = Fin 0, cycleInhibitorAUC = Fin 0,
      cycleExposureRatio = Fin 0, cyclePercentTOverMIC = Fin 0\<rparr>"

definition initialState :: "SimParams \<Rightarrow> LoopState" where
  "initialState sp =
     \<lparr>timePoints = [], drugConcentrations = [], inhibitorConcentrations = [], micValues = [],
      tOverMIC = [], cycleData = map emptyCycle [0..<numCycles sp]\<rparr>"

text \<open>The element a number selects in an array of length \<open>n\<close>. Any other number reads
  \<^verbatim>\<open>undefined\<close>, and the property access on it throws a \<^verbatim>\<open>TypeError\<close>.\<close>

definition array_index :: "jsnum \<Rightarrow> nat \<Rightarrow> nat option" where
  "array_index x n =
     (case x of
        Fin r \<Rightarrow> (if 0 \<le> r \<and> is_integer r \<and> nat \<lfloor>r\<rfloor> < n then Some (nat \<lfloor>r\<rfloor>) else None)
      | _ \<Rightarrow> None)"

definition pushSample :: "jsnum \<Rightarrow> jsnum \<Rightarrow> jsnum \<Rightarrow> jsnum \<Rightarrow> CycleResult \<Rightarrow> CycleResult" where
  "pushSample timeInCycle drugConc inhibitorConc m c =
     c\<lparr>timePoints := timePoints c @ [timeInCycle],
       drugConcentrations := drugConcentrations c @ [drugConc],
       inhibitorConcentrations := inhibitorConcentrations c @ [inhibitorConc],
       micValues := micValues c @ [m]\<rparr>"

text \<open>One pass through the loop body at time \<open>t\<close>; \<open>None\<close> is the \<^verbatim>\<open>TypeError\<close>.\<close>

definition sim_step ::
  "DrugParams \<Rightarrow> InhibitorParams \<Rightarrow> PDParams \<Rightarrow> SimParams \<Rightarrow> real \<Rightarrow> LoopState
     \<Rightarrow> LoopState option" where
  "sim_step dp ip pd sp t st =
     (let currentCycle = Math_floor (Fin t / Fin (dosingInterval dp));
          timeInCycle = js_rem (Fin t) (Fin (dosingInterval dp));
          drugConc = concentrationAt dp t;
          inhibitorConc = concentrationAt ip t;
          m = dynamicMIC pd inhibitorConc;
          isAboveMIC = (if drugConc \<ge> m then Fin 1 else Fin 0);
          st1 = st\<lparr>timePoints := timePoints st @ [Fin t],
                   drugConcentrations := drugConcentrations st @ [drugConc],
                   inhibitorConcentrations := inhibitorConcentrations st @ [inhibitorConc],
                   micValues := micValues st @ [m],
                   tOverMIC := tOverMIC st @ [isAboveMIC]\<rparr>
      in if currentCycle < Fin (real (numCycles sp))
         then (let cycleIndex = Math_min currentCycle (Fin (real (numCycles sp) - 1))
               in case array_index cycleIndex (length (cycleData st1)) of
                    None \<Rightarrow> None
                  | Some i \<Rightarrow>
                      Some (st1\<lparr>cycleData := (cycleData st1)
                              [i := pushSample timeInCycle drugConc inhibitorConc m
                                      (cycleData st1 ! i)]\<rparr>))
         else Some st1)"

text \<open>
  \<^verbatim>\<open>for (let t = 0; t <= totalTime; t += simParams.timeStep)\<close>. The loop stands behind
  the guard \<^verbatim>\<open>simParams.timeStep <= 0\<close> of \<^verbatim>\<open>runSimulation\<close>; that condition is part
  of the recursion here, so that the function is total.
\<close>

function sim_loop ::
  "DrugParams \<Rightarrow> InhibitorParams \<Rightarrow> PDParams \<Rightarrow> SimParams \<Rightarrow> real \<Rightarrow> real \<Rightarrow> LoopState
     \<Rightarrow> LoopState option" where
  "sim_loop dp ip pd sp totalTime t st =
     (if 0 < timeStep sp \<and> t \<le> totalTime
      then (case sim_step dp ip pd sp t st of
              None \<Rightarrow> None
            | Some st' \<Rightarrow> sim_loop dp ip pd sp totalTime (t + timeStep sp) st')
      else Some st)"
  by pat_completeness auto
termination
proof (relation "measure (\<lambda>(dp, ip, pd, sp, totalTime, t, st).
                   nat (\<lfloor>(totalTime - t) / timeStep sp\<rfloor> + 1))")
  show "wf (measure (\<lambda>(dp, ip, pd, sp, totalTime, t, st).
                   nat (\<lfloor>(totalTime - t) / timeStep sp\<rfloor> + 1)))"
    by simp
next
  fix dp ip :: DrugParams and pd :: PDParams and sp :: SimParams
    and totalTime t :: real and st x2 :: LoopState
  assume a: "0 < timeStep sp \<and> t \<le> totalTime"
  have "(totalTime - (t + timeStep sp)) / timeStep sp = (totalTime - t) / timeStep sp - 1"
    using a by (simp add: field_simps)
  moreover have "0 \<le> \<lfloor>(totalTime - t) / timeStep sp\<rfloor>"
    using a by simp
  ultimately show "((dp, ip, pd, sp, totalTime, t + timeStep sp, x2),
                    (dp, ip, pd, sp, totalTime, t, st))
        \<in> measure (\<lambda>(dp, ip, pd, sp, totalTime, t, st).
                   nat (\<lfloor>(totalTime - t) / timeStep sp\<rfloor> + 1))"
    by simp
qed

section \<open>Summaries and the run\<close>

text \<open>The callback of \<^verbatim>\<open>cycleData.map\<close>: the metrics of one cycle.\<close>

definition cycleMetrics :: "CycleResult \<Rightarrow> CycleResult" where
  "cycleMetrics c =
     (let dAUC = calculateAUC (timePoints c) (drugConcentrations c);
          iAUC = calculateAUC (timePoints c) (inhibitorConcentrations c);
          ratio = dAUC / iAUC;
          cycleTimeAboveMIC =
            foldl (\<lambda>sum index.
                     sum + (if js_at (drugConcentrations c) index \<ge> js_at (micValues c) index
                            then Fin 1 else Fin 0))
              (Fin 0) [0..<length (timePoints c)];
          percent = (cycleTimeAboveMIC / Fin (real (length (timePoints c)))) * Fin 100
      in c\<lparr>cycleDrugAUC := dAUC, cycleInhibitorAUC := iAUC, cycleExposureRatio := ratio,
           cyclePercentTOverMIC := percent\<rparr>)"

text \<open>The whole-horizon percentage: \<^verbatim>\<open>(timeAboveMIC / totalTimePoints) * 100\<close>.\<close>

definition percentAbove :: "jsnum list \<Rightarrow> jsnum" where
  "percentAbove flags =
     (let totalTimePoints = Fin (real (length flags));
          timeAboveMIC = foldl (\<lambda>sum val. sum + val) (Fin 0) flags
      in (timeAboveMIC / totalTimePoints) * Fin 100)"

text \<open>\<^verbatim>\<open>resultsData\<close>, \<^verbatim>\<open>chartData\<close> and \<^verbatim>\<open>cycleResultsData\<close>, computed from the
  arrays the loop leaves. Every pass pushes to all four sample arrays, so they have one
  length and the reads by index in \<^verbatim>\<open>chartData\<close> are in range.\<close>

definition resultsOf :: "DrugParams \<Rightarrow> InhibitorParams \<Rightarrow> LoopState \<Rightarrow> Results" where
  "resultsOf dp ip st =
     (let dAUC = calculateAUC (timePoints st) (drugConcentrations st);
          iAUC = calculateAUC (timePoints st) (inhibitorConcentrations st)
      in \<lparr>drugAUC = toFixed 2 dAUC,
          inhibitorAUC = toFixed 2 iAUC,
          exposureRatio = toFixed 3 (dAUC / iAUC),
          inverseExposureRatio = toFixed 3 (iAUC / dAUC),
          percentTOverMIC = toFixed 1 (percentAbove (tOverMIC st)),
          drugMinConc = toFixed 2 (minConcOf dp),
          inhibitorMinConc = toFixed 2 (minConcOf ip),
          kDrug = toFixed 4 (decayConstantOf dp),
          kInhibitor = toFixed 4 (decayConstantOf ip)\<rparr>)"

definition chartDataOf :: "LoopState \<Rightarrow> ChartDataPoint list" where
  "chartDataOf st =
     map (\<lambda>index.
            \<lparr>time = toFixed 2 (js_at (timePoints st) index),
             drug = toFixed 3 (js_at (drugConcentrations st) index),
             inhibitor = toFixed 3 (js_at (inhibitorConcentrations st) index),
             mic = toFixed 3 (js_at (micValues st) index)\<rparr>)
       [0..<length (timePoints st)]"

definition cycleResultsOf :: "LoopState \<Rightarrow> CycleResult list" where
  "cycleResultsOf st = map cycleMetrics (cycleData st)"

text \<open>The arrays at the end of the loop of a run.\<close>

definition finalState ::
  "DrugParams \<Rightarrow> InhibitorParams \<Rightarrow> PDParams \<Rightarrow> SimParams \<Rightarrow> LoopState option" where
  "finalState dp ip pd sp =
     (let totalTime = real (numCycles sp) * dosingInterval dp
      in sim_loop dp ip pd sp totalTime 0 (initialState sp))"

text \<open>
  The state of the component that \<^verbatim>\<open>runSimulation\<close> reads and writes. The run id
  (\<^verbatim>\<open>performance.now() + Math.random()\<close>) is an argument. The function has no
  \<^verbatim>\<open>await\<close>: a call runs to its end before anything else touches the state. When
  the loop throws, nothing is written after the loading flag.
\<close>

record State =
  drugParams :: DrugParams
  inhibitorParams :: InhibitorParams
  pdParams :: PDParams
  simParams :: SimParams
  results :: "Results option"
  chartData :: "ChartDataPoint list"
  cycleResults :: "CycleResult list"
  isSimulating :: bool
  latestRunId :: real
  isMounted :: bool
  drugValidationErrors :: "string list"
  inhibitorValidationErrors :: "string list"

definition runSimulation :: "real \<Rightarrow> State \<Rightarrow> State" where
  "runSimulation runId s =
     (let drugErrors = validateDrugParams (drugParams s);
          inhibitorErrors = validateInhibitorParams (inhibitorParams s);
          s1 = s\<lparr>drugValidationErrors := drugErrors,
                 inhibitorValidationErrors := inhibitorErrors\<rparr>
      in if length drugErrors > 0 \<or> length inhibitorErrors > 0 \<or> timeStep (simParams s) \<le> 0
         then s1\<lparr>isSimulating := False\<rparr>
         else (let s2 = s1\<lparr>latestRunId := runId, isSimulating := True\<rparr>
               in case finalState (drugParams s) (inhibitorParams s) (pdParams s) (simParams s) of
                    None \<Rightarrow> s2
                  | Some st \<Rightarrow>
                      (if runId \<noteq> latestRunId s2 \<or> \<not> isMounted s2 then s2
                       else s2\<lparr>results := Some (resultsOf (drugParams s) (inhibitorParams s) st),
                               chartData := chartDataOf st,
                               cycleResults := cycleResultsOf st,
                               isSimulating := False\<rparr>)))"

section \<open>The optimizer\<close>

text \<open>
  The four local variables of \<^verbatim>\<open>calculateOptimization\<close> that its rules assign:
  \<^verbatim>\<open>recommendedInterval\<close>, \<^verbatim>\<open>recommendedDose\<close>, \<^verbatim>\<open>confidence\<close> and
  \<^verbatim>\<open>riskAssessment\<close>.
\<close>

record Decision =
  decInterval :: jsnum
  decDose :: jsnum
  decConfidence :: jsnum
  decRisk :: string

text \<open>The rules on the ratio of the current to the target T>MIC (the \<^verbatim>\<open>if\<close> chain
  after the four variables are initialised).\<close>

definition ratioRules ::
  "jsnum \<Rightarrow> jsnum \<Rightarrow> jsnum \<Rightarrow> jsnum \<Rightarrow> jsnum \<Rightarrow> OptimizationTarget \<Rightarrow> Decision" where
  "ratioRules currentInterval currentDose currentTOverMIC peakConc troughConc tg =
     (let initial = \<lparr>decInterval = currentInterval, decDose = currentDose,
                      decConfidence = Fin 0.7, decRisk = ''Moderate''\<rparr>;
          tOverMICRatio = currentTOverMIC / Fin (targetTOverMIC tg)
      in if tOverMICRatio < Fin 0.8
         then (if peakConc < Fin (maxSafeConc tg) * Fin 0.8
               then initial\<lparr>decDose := Math_min (currentDose * Fin 1.3)
                                         (Fin (maxSafeConc tg) * Fin 0.9),
                             decConfidence := Fin 0.85, decRisk := ''Low''\<rparr>
               else initial\<lparr>decInterval := Math_max (currentInterval * Fin 0.75) (Fin 6),
                             decConfidence := Fin 0.75, decRisk := ''Moderate''\<rparr>)
         else if tOverMICRatio > Fin 1.2
         then (if troughConc > Fin (minEffectiveConc tg) * Fin 1.5
               then initial\<lparr>decInterval := Math_min (currentInterval * Fin 1.25) (Fin 48),
                             decConfidence := Fin 0.8, decRisk := ''Low''\<rparr>
               else if peakConc > Fin (maxSafeConc tg) * Fin 0.9
               then initial\<lparr>decDose := Math_max (currentDose * Fin 0.85)
                                         (Fin (minEffectiveConc tg) * Fin 2),
                             decConfidence := Fin 0.8, decRisk := ''Low''\<rparr>
               else initial)
         else initial)"

text \<open>The two safety checks that follow, each an \<^verbatim>\<open>if\<close> without \<^verbatim>\<open>else\<close>.\<close>

definition safetyChecks :: "jsnum \<Rightarrow> jsnum \<Rightarrow> OptimizationTarget \<Rightarrow> Decision \<Rightarrow> Decision" where
  "safetyChecks peakConc troughConc tg dec =
     (let dec1 = (if troughConc < Fin (minEffectiveConc tg)
                  then dec\<lparr>decRisk := ''High - Risk of subtherapeutic levels'',
                           decConfidence := Fin 0.6\<rparr>
                  else dec)
      in if peakConc > Fin (maxSafeConc tg)
         then dec1\<lparr>decRisk := ''High - Risk of toxicity'', decConfidence := Fin 0.5\<rparr>
         else dec1)"

text \<open>The estimated concentration at point \<open>i\<close> of the \<^verbatim>\<open>timeSteps = 10\<close> steps of the
  recommended interval, and the count of the points at or above the average MIC.\<close>

definition estimatedConc :: "DrugParams \<Rightarrow> jsnum \<Rightarrow> jsnum \<Rightarrow> jsnum \<Rightarrow> jsnum \<Rightarrow> nat \<Rightarrow> jsnum" where
  "estimatedConc dp k expectedPeak expectedTrough interval i =
     (let timeInInterval = (Fin (real i) / Fin 10) * interval
      in if timeInInterval \<le> Fin (infusionTime dp)
         then expectedTrough +
                (expectedPeak - expectedTrough) * (timeInInterval / Fin (infusionTime dp))
         else expectedPeak * Math_exp (- k * (timeInInterval - Fin (infusionTime dp))))"

definition averageMIC :: "ChartDataPoint list \<Rightarrow> jsnum" where
  "averageMIC cd =
     (if length cd > 0
      then foldl (\<lambda>sum d. sum + mic d) (Fin 0) cd / Fin (real (length cd))
      else Fin 4)"

definition timeAboveMicEstimate ::
  "DrugParams \<Rightarrow> jsnum \<Rightarrow> jsnum \<Rightarrow> jsnum \<Rightarrow> jsnum \<Rightarrow> jsnum \<Rightarrow> jsnum" where
  "timeAboveMicEstimate dp k expectedPeak expectedTrough interval avgMIC =
     foldl (\<lambda>count i.
              if estimatedConc dp k expectedPeak expectedTrough interval i \<ge> avgMIC
              then count + Fin 1 else count)
       (Fin 0) [0..<11]"

text \<open>\<^verbatim>\<open>calculateOptimization\<close>; \<open>None\<close> is its \<^verbatim>\<open>null\<close>. It reads the drug
  parameters, the target, \<^verbatim>\<open>results\<close> and \<^verbatim>\<open>chartData\<close> of the component.\<close>

definition calculateOptimization ::
  "DrugParams \<Rightarrow> OptimizationTarget \<Rightarrow> Results option \<Rightarrow> ChartDataPoint list
     \<Rightarrow> OptimizationRecommendation option" where
  "calculateOptimization dp tg res cd =
     (case res of
        None \<Rightarrow> None
      | Some r \<Rightarrow>
          if length cd = 0 then None
          else
            (let currentInterval = Fin (dosingInterval dp);
                 currentDose = Fin (maxConcentration dp);
                 currentTOverMIC = percentTOverMIC r;
                 peakConc = Math_max_of (map drug cd);
                 troughConc = Math_min_of (map drug cd);
                 dec = safetyChecks peakConc troughConc tg
                         (ratioRules currentInterval currentDose currentTOverMIC peakConc
                            troughConc tg);
                 k = Fin (ln 2) / Fin (halfLife dp);
                 expectedPeakC = decDose dec;
                 expectedTroughC =
                   expectedPeakC * Math_exp (- k * (decInterval dec - Fin (infusionTime dp)));
                 avgMIC = averageMIC cd;
                 estimate = timeAboveMicEstimate dp k expectedPeakC expectedTroughC
                              (decInterval dec) avgMIC;
                 expectedT = Math_min ((estimate / Fin (10 + 1)) * Fin 100) (Fin 100)
             in Some
                  \<lparr>recommendedInterval = Math_round (decInterval dec * Fin 10) / Fin 10,
                   recommendedDose = Math_round (decDose dec * Fin 10) / Fin 10,
                   expectedTOverMIC = Math_round (expectedT * Fin 10) / Fin 10,
                   expectedPeakConc = Math_round (expectedPeakC * Fin 100) / Fin 100,
                   expectedTroughConc = Math_round (expectedTroughC * Fin 100) / Fin 100,
                   riskAssessment = decRisk dec,
                   confidence = Math_round (decConfidence dec * Fin 100) / Fin 100\<rparr>))"

section \<open>The rules of the specification\<close>

text \<open>
  The five rules of a dosing regimen as the specification lists them, each with its
  message, and the violation list they give: the message of every rule that fails, in
  the order of the rules.
\<close>

definition regimenRules :: "((DrugParams \<Rightarrow> bool) \<times> string) list" where
  "regimenRules =
     [(\<lambda>d. dosingInterval d > 0, ''Dosing interval must be positive''),
      (\<lambda>d. infusionTime d \<ge> 0, ''Infusion time must be non-negative''),
      (\<lambda>d. infusionTime d \<le> dosingInterval d, ''Infusion time cannot exceed dosing interval''),
      (\<lambda>d. halfLife d > 0, ''Half-life must be positive''),
      (\<lambda>d. maxConcentration d > 0, ''Max concentration must be positive'')]"

definition violations :: "DrugParams \<Rightarrow> string list" where
  "violations d = map snd (filter (\<lambda>rule. \<not> fst rule d) regimenRules)"

section \<open>The initial state of the component\<close>

text \<open>The values the component starts from (its \<^verbatim>\<open>useState\<close> and \<^verbatim>\<open>useRef\<close>
  initialisers).\<close>

definition defaultDrugParams :: DrugParams where
  "defaultDrugParams =
     \<lparr>dosingInterval = 24, infusionTime = 1, halfLife = 6, maxConcentration = 100\<rparr>"

definition defaultInhibitorParams :: InhibitorParams where
  "defaultInhibitorParams =
     \<lparr>dosingInterval = 24, infusionTime = 1, halfLife = 8, maxConcentration = 50\<rparr>"

definition defaultPdParams :: PDParams where
  "defaultPdParams = \<lparr>log2MIC0 = 2, imax = 3, ic50 = 25, hillCoeff = 1\<rparr>"

definition defaultSimParams :: SimParams where
  "defaultSimParams = \<lparr>numCycles = 3, timeStep = 0.1\<rparr>"

definition defaultTarget :: OptimizationTarget where
  "defaultTarget = \<lparr>minEffectiveConc = 2.0, maxSafeConc = 50.0, targetTOverMIC = 80.0\<rparr>"

definition initialComponent :: State where
  "initialComponent =
     \<lparr>drugParams = defaultDrugParams, inhibitorParams = defaultInhibitorParams,
      pdParams = defaultPdParams, simParams = defaultSimParams,
      results = None, chartData = [], cycleResults = [],
      isSimulating = False, latestRunId = 0, isMounted = True,
      drugValidationErrors = [], inhibitorValidationErrors = []\<rparr>"

section \<open>The loop in closed form\<close>

text \<open>
  What the loop computes, stated without the loop: the times it visits, the state one pass
  leaves behind when no error is raised, and the samples that fall into cycle \<open>c\<close> of the
  drug regimen. The lemmas below relate \<^const>\<open>sim_loop\<close> to them.
\<close>

definition grid :: "real \<Rightarrow> real \<Rightarrow> real \<Rightarrow> real list" where
  "grid step totalTime t =
     map (\<lambda>k. t + real k * step) [0..<nat (\<lfloor>(totalTime - t) / step\<rfloor> + 1)]"

definition sampleTimes :: "DrugParams \<Rightarrow> SimParams \<Rightarrow> real list" where
  "sampleTimes dp sp = grid (timeStep sp) (real (numCycles sp) * dosingInterval dp) 0"

definition cycleIndexOf :: "DrugParams \<Rightarrow> real \<Rightarrow> nat" where
  "cycleIndexOf dp t = nat \<lfloor>t / dosingInterval dp\<rfloor>"

definition timeInCycleOf :: "DrugParams \<Rightarrow> real \<Rightarrow> jsnum" where
  "timeInCycleOf dp t = Fin (t - dosingInterval dp * of_int \<lfloor>t / dosingInterval dp\<rfloor>)"

definition micAt :: "InhibitorParams \<Rightarrow> PDParams \<Rightarrow> real \<Rightarrow> jsnum" where
  "micAt ip pd t = dynamicMIC pd (concentrationAt ip t)"

definition aboveAt :: "DrugParams \<Rightarrow> InhibitorParams \<Rightarrow> PDParams \<Rightarrow> real \<Rightarrow> jsnum" where
  "aboveAt dp ip pd t = (if concentrationAt dp t \<ge> micAt ip pd t then Fin 1 else Fin 0)"

definition stepResult ::
  "DrugParams \<Rightarrow> InhibitorParams \<Rightarrow> PDParams \<Rightarrow> SimParams \<Rightarrow> LoopState \<Rightarrow> real \<Rightarrow> LoopState" where
  "stepResult dp ip pd sp st t =
     st\<lparr>timePoints := timePoints st @ [Fin t],
        drugConcentrations := drugConcentrations st @ [concentrationAt dp t],
        inhibitorConcentrations := inhibitorConcentrations st @ [concentrationAt ip t],
        micValues := micValues st @ [micAt ip pd t],
        tOverMIC := tOverMIC st @ [aboveAt dp ip pd t],
        cycleData :=
          (if cycleIndexOf dp t < numCycles sp
           then (cycleData st)
                  [cycleIndexOf dp t :=
                     pushSample (timeInCycleOf dp t) (concentrationAt dp t)
                       (concentrationAt ip t) (micAt ip pd t)
                       (cycleData st ! cycleIndexOf dp t)]
           else cycleData st)\<rparr>"

definition cycleSamples :: "DrugParams \<Rightarrow> nat \<Rightarrow> real list \<Rightarrow> real list" where
  "cycleSamples dp c ts = filter (\<lambda>t. cycleIndexOf dp t = c) ts"

definition cycleOf ::
  "DrugParams \<Rightarrow> InhibitorParams \<Rightarrow> PDParams \<Rightarrow> real list \<Rightarrow> nat \<Rightarrow> CycleResult" where
  "cycleOf dp ip pd ts c =
     \<lparr>timePoints = map (timeInCycleOf dp) (cycleSamples dp c ts),
      drugConcentrations = map (concentrationAt dp) (cycleSamples dp c ts),
      inhibitorConcentrations = map (concentrationAt ip) (cycleSamples dp c ts),
      micValues = map (micAt ip pd) (cycleSamples dp c ts),
      cycle = c + 1, cycleDrugAUC = Fin 0, cycleInhibitorAUC = Fin 0,
      cycleExposureRatio = Fin 0, cyclePercentTOverMIC = Fin 0\<rparr>"

definition stateOf ::
  "DrugParams \<Rightarrow> InhibitorParams \<Rightarrow> PDParams \<Rightarrow> SimParams \<Rightarrow> real list \<Rightarrow> LoopState" where
  "stateOf dp ip pd sp ts =
     \<lparr>timePoints = map Fin ts,
      drugConcentrations = map (concentrationAt dp) ts,
      inhibitorConcentrations = map (concentrationAt ip) ts,
      micValues = map (micAt ip pd) ts,
      tOverMIC = map (aboveAt dp ip pd) ts,
      cycleData = map (cycleOf dp ip pd ts) [0..<numCycles sp]\<rparr>"

section \<open>The time grid in binary64 arithmetic\<close>

text \<open>
  The loop variable \<open>t\<close> is a binary64 number and \<^verbatim>\<open>t += simParams.timeStep\<close> rounds
  each sum to the nearest binary64 number, ties to the even significand. How many samples
  a run takes depends on that rounding, so the walk over the grid is modelled here bit for
  bit. A time is kept as the natural number \<open>n\<close> that stands for \<open>n / 2\<^sup>5\<^sup>6\<close> hours: every
  binary64 number from \<open>1/16\<close> upwards is such a multiple, and so are 0 and the sum of two
  of them.

  \<open>round53\<close> rounds a natural number to 53 significant bits (the significand of
  binary64), to nearest and ties to even; \<open>excess_bits\<close> counts the bits it has to drop.
\<close>

fun excess_bits :: "nat \<Rightarrow> nat" where
  "excess_bits n = (if n < 2 ^ 53 then 0 else Suc (excess_bits (n div 2)))"

definition round53 :: "nat \<Rightarrow> nat" where
  "round53 s =
     (let sh = excess_bits s;
          q = s div 2 ^ sh;
          r = s mod 2 ^ sh
      in if 2 * r < 2 ^ sh then q * 2 ^ sh
         else if 2 ^ sh < 2 * r then (q + 1) * 2 ^ sh
         else if even q then q * 2 ^ sh else (q + 1) * 2 ^ sh)"

definition add64 :: "nat \<Rightarrow> nat \<Rightarrow> nat" where
  "add64 a b = round53 (a + b)"

text \<open>
  \<^verbatim>\<open>for (let t = 0; t <= totalTime; t += simParams.timeStep) { timePoints.push(t); ... }\<close>:
  the values pushed to \<^verbatim>\<open>timePoints\<close>. In binary64 a sum can round back to \<open>t\<close>, and
  then the loop runs forever; the walk takes fuel and is \<open>None\<close> when it runs out.
\<close>

fun grid64 :: "nat \<Rightarrow> nat \<Rightarrow> nat \<Rightarrow> nat \<Rightarrow> nat list option" where
  "grid64 fuel step totalTime t =
     (if fuel = 0 then None
      else if t \<le> totalTime
        then map_option ((#) t) (grid64 (fuel - 1) step totalTime (add64 t step))
      else Some [])"

text \<open>The literal \<^verbatim>\<open>0.1\<close>: the binary64 number nearest to \<open>1/10\<close> is
  \<open>tenth / 2\<^sup>5\<^sup>6\<close>, with \<open>tenth\<close> the integer nearest to \<open>2\<^sup>5\<^sup>6 / 10\<close> (it has 53
  bits). The total time of the default run, \<^verbatim>\<open>3 * 24\<close>, is exact.\<close>

definition tenth :: nat where
  "tenth = (2 * 2 ^ 56 + 10) div 20"

definition hours72 :: nat where
  "hours72 = 72 * 2 ^ 56"

text \<open>The same walk, keeping only the number of samples and the first value beyond
  \<open>totalTime\<close>.\<close>

fun walk64 :: "nat \<Rightarrow> nat \<Rightarrow> nat \<Rightarrow> nat \<Rightarrow> nat \<Rightarrow> (nat \<times> nat) option" where
  "walk64 fuel step totalTime t n =
     (if fuel = 0 then None
      else if t \<le> totalTime then walk64 (fuel - 1) step totalTime (add64 t step) (Suc n)
      else Some (n, t))"

section \<open>Binary64 arithmetic\<close>

text \<open>
  Where a property hinges on the rounding of single operations, the operations are
  modelled bit for bit. A finite binary64 number is kept as \<open>B64 m e\<close>, which stands for
  \<open>m \<cdot> 2\<^sup>e\<close>; the pair need not be normalised, so one number has several
  representations, and numbers are compared with \<open>b64_le\<close> and \<open>b64_less\<close>. The
  sign of zero is left out, as it is for \<^typ>\<open>jsnum\<close>.

  \<open>round64 m e\<close> is the binary64 number nearest to \<open>m \<cdot> 2\<^sup>e\<close>, ties to the even
  significand: the significand keeps 53 bits, fewer below \<open>2\<^sup>-\<^sup>1\<^sup>0\<^sup>2\<^sup>2\<close> where the
  numbers are the multiples of \<open>2\<^sup>-\<^sup>1\<^sup>0\<^sup>7\<^sup>4\<close>, and a result of magnitude \<open>2\<^sup>1\<^sup>0\<^sup>2\<^sup>4\<close> or
  more is an infinity. \<open>bit_len\<close> is the number of bits of a natural number and
  \<open>round_half_even a sh\<close> is \<open>a / 2\<^sup>s\<^sup>h\<close> rounded to an integer.
\<close>

datatype b64 = B64 int int | PInf64 | NInf64 | NaN64

fun bit_len :: "nat \<Rightarrow> nat" where
  "bit_len n = (if n = 0 then 0 else Suc (bit_len (n div 2)))"

declare bit_len.simps [simp del]

definition round_half_even :: "nat \<Rightarrow> nat \<Rightarrow> nat" where
  "round_half_even a sh =
     (let q = a div 2 ^ sh;
          r = a mod 2 ^ sh
      in if 2 * r < 2 ^ sh then q
         else if 2 ^ sh < 2 * r then q + 1
         else if even q then q else q + 1)"

definition round64 :: "int \<Rightarrow> int \<Rightarrow> b64" where
  "round64 m e =
     (if m = 0 then B64 0 0
      else (let a = nat \<bar>m\<bar>;
                sh = max (int (bit_len a) - 53) (- 1074 - e);
                n = (if sh \<le> 0 then a else round_half_even a (nat sh));
                e' = (if sh \<le> 0 then e else e + sh)
            in if n = 0 then B64 0 0
               else if 1024 < e' + int (bit_len n) then (if 0 < m then PInf64 else NInf64)
               else B64 (sgn m * int n) e'))"

text \<open>The operators \<^verbatim>\<open>+\<close>, \<^verbatim>\<open>-\<close>, \<^verbatim>\<open>*\<close> and \<^verbatim>\<open>/\<close>: the exact result, rounded once.
  The quotient is computed to at least 55 bits, \<open>q = \<lfloor>a \<cdot> 2\<^sup>k / b\<rfloor>\<close>, and one more bit says
  whether it has a remainder, which is all that rounding to 53 bits can depend on.\<close>

fun b64_neg :: "b64 \<Rightarrow> b64" where
  "b64_neg (B64 m e) = B64 (- m) e"
| "b64_neg PInf64 = NInf64"
| "b64_neg NInf64 = PInf64"
| "b64_neg NaN64 = NaN64"

fun b64_add :: "b64 \<Rightarrow> b64 \<Rightarrow> b64" where
  "b64_add (B64 m1 e1) (B64 m2 e2) =
     (let e = min e1 e2
      in round64 (m1 * 2 ^ nat (e1 - e) + m2 * 2 ^ nat (e2 - e)) e)"
| "b64_add NaN64 _ = NaN64"
| "b64_add _ NaN64 = NaN64"
| "b64_add PInf64 NInf64 = NaN64"
| "b64_add NInf64 PInf64 = NaN64"
| "b64_add PInf64 _ = PInf64"
| "b64_add _ PInf64 = PInf64"
| "b64_add NInf64 _ = NInf64"
| "b64_add _ NInf64 = NInf64"

definition b64_sub :: "b64 \<Rightarrow> b64 \<Rightarrow> b64" where
  "b64_sub x y = b64_add x (b64_neg y)"

fun b64_sign :: "b64 \<Rightarrow> int" where
  "b64_sign (B64 m e) = sgn m"
| "b64_sign PInf64 = 1"
| "b64_sign NInf64 = - 1"
| "b64_sign NaN64 = 0"

definition b64_inf :: "int \<Rightarrow> b64" where
  "b64_inf s = (if s = 0 then NaN64 else if 0 < s then PInf64 else NInf64)"

fun b64_mul :: "b64 \<Rightarrow> b64 \<Rightarrow> b64" where
  "b64_mul (B64 m1 e1) (B64 m2 e2) = round64 (m1 * m2) (e1 + e2)"
| "b64_mul NaN64 _ = NaN64"
| "b64_mul _ NaN64 = NaN64"
| "b64_mul x y = b64_inf (b64_sign x * b64_sign y)"

fun b64_div :: "b64 \<Rightarrow> b64 \<Rightarrow> b64" where
  "b64_div (B64 m1 e1) (B64 m2 e2) =
     (if m2 = 0 then b64_inf (sgn m1)
      else if m1 = 0 then B64 0 0
      else (let a = nat \<bar>m1\<bar>;
                b = nat \<bar>m2\<bar>;
                k = bit_len b + 55 - bit_len a;
                q = (a * 2 ^ k) div b;
                sticky = (if q * b = a * 2 ^ k then 0 else 1)
            in round64 (sgn m1 * sgn m2 * int (2 * q + sticky)) (e1 - e2 - int k - 1)))"
| "b64_div NaN64 _ = NaN64"
| "b64_div _ NaN64 = NaN64"
| "b64_div (B64 m e) _ = B64 0 0"
| "b64_div x (B64 m e) = b64_inf (b64_sign x * (if 0 \<le> m then 1 else - 1))"
| "b64_div _ _ = NaN64"

text \<open>\<^verbatim>\<open>Math.floor\<close>, \<^verbatim>\<open><=\<close> and \<^verbatim>\<open><\<close>.\<close>

fun b64_floor :: "b64 \<Rightarrow> b64" where
  "b64_floor (B64 m e) = (if 0 \<le> e then B64 m e else B64 (m div 2 ^ nat (- e)) 0)"
| "b64_floor x = x"

fun b64_le :: "b64 \<Rightarrow> b64 \<Rightarrow> bool" where
  "b64_le (B64 m1 e1) (B64 m2 e2) =
     (let e = min e1 e2 in m1 * 2 ^ nat (e1 - e) \<le> m2 * 2 ^ nat (e2 - e))"
| "b64_le NaN64 _ = False"
| "b64_le _ NaN64 = False"
| "b64_le NInf64 _ = True"
| "b64_le _ PInf64 = True"
| "b64_le _ _ = False"

fun b64_less :: "b64 \<Rightarrow> b64 \<Rightarrow> bool" where
  "b64_less (B64 m1 e1) (B64 m2 e2) =
     (let e = min e1 e2 in m1 * 2 ^ nat (e1 - e) < m2 * 2 ^ nat (e2 - e))"
| "b64_less NaN64 _ = False"
| "b64_less _ NaN64 = False"
| "b64_less PInf64 _ = False"
| "b64_less _ NInf64 = False"
| "b64_less _ _ = True"

text \<open>The real number a finite \<^typ>\<open>b64\<close> stands for.\<close>

fun b64_finite :: "b64 \<Rightarrow> bool" where
  "b64_finite (B64 m e) = True"
| "b64_finite _ = False"

fun b64_val :: "b64 \<Rightarrow> real" where
  "b64_val (B64 m e) =
     (if 0 \<le> e then real_of_int m * 2 ^ nat e else real_of_int m / 2 ^ nat (- e))"
| "b64_val _ = 0"

text \<open>A decimal literal \<open>n / 10\<^sup>k\<close>, such as \<^verbatim>\<open>1.4\<close> for \<open>n = 14\<close> and \<open>k = 1\<close>: the
  binary64 number nearest to it, which is the quotient of the two whole numbers rounded
  once.\<close>

definition decimal64 :: "int \<Rightarrow> nat \<Rightarrow> b64" where
  "decimal64 n k = b64_div (B64 n 0) (B64 (10 ^ k) 0)"

subsection \<open>The samples of a run and their cycles\<close>

text \<open>
  \<^verbatim>\<open>const totalTime = simParams.numCycles * drugParams.dosingInterval\<close> and, in the
  loop, \<^verbatim>\<open>const currentCycle = Math.floor(t / drugParams.dosingInterval)\<close>, for a whole
  number of cycles.
\<close>

definition totalTime64 :: "nat \<Rightarrow> b64 \<Rightarrow> b64" where
  "totalTime64 n interval = b64_mul (B64 (int n) 0) interval"

definition currentCycle64 :: "b64 \<Rightarrow> b64 \<Rightarrow> b64" where
  "currentCycle64 interval t = b64_floor (b64_div t interval)"

text \<open>
  \<^verbatim>\<open>for (let t = 0; t <= totalTime; t += simParams.timeStep)\<close>: the values of \<open>t\<close> the
  loop visits, each with its \<^verbatim>\<open>currentCycle\<close>. The walk takes fuel, since a sum that
  rounds back to \<open>t\<close> makes the loop run forever. A sample is pushed to the arrays of a
  cycle when \<^verbatim>\<open>currentCycle < simParams.numCycles\<close>.
\<close>

fun samples64 :: "nat \<Rightarrow> b64 \<Rightarrow> b64 \<Rightarrow> b64 \<Rightarrow> b64 \<Rightarrow> (b64 \<times> b64) list option" where
  "samples64 fuel step interval totalTime t =
     (if fuel = 0 then None
      else if b64_le t totalTime
        then map_option ((#) (t, currentCycle64 interval t))
               (samples64 (fuel - 1) step interval totalTime (b64_add t step))
      else Some [])"

definition inCycle64 :: "nat \<Rightarrow> b64 \<times> b64 \<Rightarrow> bool" where
  "inCycle64 n sample = b64_less (snd sample) (B64 (int n) 0)"

subsection \<open>The integrator with rounded operations\<close>

text \<open>\<^verbatim>\<open>calculateAUC\<close> with its five operations per pass rounded; a read past the end
  of an array gives \<^verbatim>\<open>NaN\<close>.\<close>

definition b64_at :: "b64 list \<Rightarrow> nat \<Rightarrow> b64" where
  "b64_at xs i = (if i < length xs then xs ! i else NaN64)"

definition auc_step64 :: "b64 list \<Rightarrow> b64 list \<Rightarrow> b64 \<Rightarrow> nat \<Rightarrow> b64" where
  "auc_step64 tps concs auc i =
     (let dt = b64_sub (b64_at tps i) (b64_at tps (i - 1));
          avgConc = b64_div (b64_add (b64_at concs (i - 1)) (b64_at concs i)) (B64 2 0)
      in b64_add auc (b64_mul avgConc dt))"

definition calculateAUC64 :: "b64 list \<Rightarrow> b64 list \<Rightarrow> b64" where
  "calculateAUC64 tps concs = foldl (auc_step64 tps concs) (B64 0 0) [1..<length tps]"

text \<open>
  An operation is exact when its operands and its result are finite and the result
  stands for the exact result on the reals, that is when nothing is rounded off. A pass
  of the loop is exact when its five operations are, and \<open>rounding_free\<close> says that all
  passes of \<^verbatim>\<open>calculateAUC\<close> on the given arrays are.
\<close>

definition exact_op :: "(real \<Rightarrow> real \<Rightarrow> real) \<Rightarrow> b64 \<Rightarrow> b64 \<Rightarrow> b64 \<Rightarrow> bool" where
  "exact_op f x y r =
     (b64_finite x \<and> b64_finite y \<and> b64_finite r \<and> b64_val r = f (b64_val x) (b64_val y))"

definition auc_step_exact :: "b64 list \<Rightarrow> b64 list \<Rightarrow> b64 \<Rightarrow> nat \<Rightarrow> bool" where
  "auc_step_exact tps concs auc i =
     (let dt = b64_sub (b64_at tps i) (b64_at tps (i - 1));
          s = b64_add (b64_at concs (i - 1)) (b64_at concs i);
          avgConc = b64_div s (B64 2 0);
          p = b64_mul avgConc dt
      in exact_op (\<lambda>a b. a - b) (b64_at tps i) (b64_at tps (i - 1)) dt \<and>
         exact_op (\<lambda>a b. a + b) (b64_at concs (i - 1)) (b64_at concs i) s \<and>
         exact_op (\<lambda>a b. a / b) s (B64 2 0) avgConc \<and>
         exact_op (\<lambda>a b. a * b) avgConc dt p \<and>
         exact_op (\<lambda>a b. a + b) auc p (b64_add auc p))"

fun auc_exact :: "b64 list \<Rightarrow> b64 list \<Rightarrow> b64 \<Rightarrow> nat list \<Rightarrow> bool" where
  "auc_exact tps concs auc [] = True"
| "auc_exact tps concs auc (i # rest) =
     (auc_step_exact tps concs auc i \<and>
      auc_exact tps concs (auc_step64 tps concs auc i) rest)"

definition rounding_free :: "b64 list \<Rightarrow> b64 list \<Rightarrow> bool" where
  "rounding_free tps concs = auc_exact tps concs (B64 0 0) [1..<length tps]"

text \<open>The term of the trapezoidal rule for the pair of samples \<open>i - 1\<close> and \<open>i\<close>, on the
  reals.\<close>

definition trapezoid64 :: "b64 list \<Rightarrow> b64 list \<Rightarrow> nat \<Rightarrow> real" where
  "trapezoid64 tps concs i =
     (b64_val (b64_at tps i) - b64_val (b64_at tps (i - 1))) *
     ((b64_val (b64_at concs (i - 1)) + b64_val (b64_at concs i)) / 2)"

section \<open>Evaluating binary64 arithmetic\<close>

text \<open>The number of bits of a numeral, read off its binary digits, and the facts that
  evaluate the operations on given numbers.\<close>

lemma bit_len_0: "bit_len 0 = 0"
  by (simp add: bit_len.simps)

lemma bit_len_1: "bit_len 1 = 1" "bit_len (Suc 0) = 1"
  by (simp_all add: bit_len.simps)

lemma bit_len_Bit0: "bit_len (numeral (Num.Bit0 n)) = Suc (bit_len (numeral n))"
  by (subst bit_len.simps) simp

lemma bit_len_Bit1: "bit_len (numeral (Num.Bit1 n)) = Suc (bit_len (numeral n))"
  by (subst bit_len.simps) simp

lemmas b64_ev = round64_def round_half_even_def decimal64_def
  b64_sub_def b64_inf_def totalTime64_def currentCycle64_def
  bit_len_0 bit_len_1 bit_len_Bit0 bit_len_Bit1

text \<open>The literals 0.3, 1.4, 0.65, 1.3 and 0.7.\<close>

lemma decimal64_values:
  "decimal64 3 1 = B64 5404319552844595 (- 54)"
  "decimal64 14 1 = B64 6305039478318694 (- 52)"
  "decimal64 65 2 = B64 5854679515581645 (- 53)"
  "decimal64 13 1 = B64 5854679515581645 (- 52)"
  "decimal64 7 1 = B64 6305039478318694 (- 53)"
  by (simp_all add: b64_ev)

section \<open>The AUC integrator\<close>

lemma minus_Fin [simp]: "Fin a - Fin b = Fin (a - b)"
  by (simp add: minus_jsnum_def)

lemma js_at_map_Fin: "i < length xs \<Longrightarrow> js_at (map Fin xs) i = Fin (xs ! i)"
  by (simp add: js_at_def)

lemma auc_step_Fin:
  assumes "0 < i" "i < length ts" "length cs = length ts"
  shows "auc_step (map Fin ts) (map Fin cs) (Fin a) i =
           Fin (a + (cs ! (i - 1) + cs ! i) / 2 * (ts ! i - ts ! (i - 1)))"
proof -
  have "i - 1 < length ts" "i - 1 < length cs" "i < length cs" using assms by simp_all
  then show ?thesis
    using assms by (simp add: auc_step_def js_at_map_Fin Let_def)
qed

lemma auc_prefix:
  assumes "length cs = length ts"
  shows "n \<le> length ts \<Longrightarrow>
     foldl (auc_step (map Fin ts) (map Fin cs)) (Fin 0) [1..<n] =
       Fin (\<Sum>i = 1..<n. (cs ! (i - 1) + cs ! i) / 2 * (ts ! i - ts ! (i - 1)))"
proof (induction n)
  case 0
  then show ?case by simp
next
  case (Suc n)
  show ?case
  proof (cases "n = 0")
    case True
    then show ?thesis by simp
  next
    case False
    then have up: "[1..<Suc n] = [1..<n] @ [n]" by simp
    have "n \<le> length ts" "n < length ts" "0 < n" using Suc.prems False by simp_all
    then show ?thesis
      using Suc.IH assms by (simp only: up foldl_append foldl.simps auc_step_Fin) (simp add: sum.atLeast_Suc_lessThan)
  qed
qed

lemma auc_const_sum:
  "n \<le> length ts \<Longrightarrow> 0 < n \<Longrightarrow>
     (\<Sum>i = 1..<n. (c + c) / 2 * (ts ! i - ts ! (i - 1))) = c * (ts ! (n - 1) - ts ! 0)" for c :: real
proof (induction n)
  case 0
  then show ?case by simp
next
  case (Suc n)
  show ?case
  proof (cases "n = 0")
    case True
    then show ?thesis by simp
  next
    case False
    then have "(\<Sum>i = 1..<Suc n. (c + c) / 2 * (ts ! i - ts ! (i - 1))) =
        (\<Sum>i = 1..<n. (c + c) / 2 * (ts ! i - ts ! (i - 1))) + (c + c) / 2 * (ts ! n - ts ! (n - 1))"
      by simp
    also have "\<dots> = c * (ts ! (n - 1) - ts ! 0) + c * (ts ! n - ts ! (n - 1))"
      using Suc False by simp
    finally show ?thesis by (simp add: algebra_simps)
  qed
qed

lemma calculateAUC_short: "length tps \<le> 1 \<Longrightarrow> calculateAUC tps concs = Fin 0"
  by (simp add: calculateAUC_def)

text \<open>
  In exact arithmetic \<^const>\<open>calculateAUC\<close> is the trapezoidal sum over consecutive pairs;
  on a series with the constant concentration \<open>c\<close> that sum is \<open>c \<cdot> (t1 - t0)\<close>, from the
  first time to the last. The integrator in binary64 arithmetic has a section of its own.
\<close>

lemma calculateAUC_exact_arithmetic:
  "(length cs = length ts \<longrightarrow>
      calculateAUC (map Fin ts) (map Fin cs) =
        Fin (\<Sum>i = 1..<length ts. (ts ! i - ts ! (i - 1)) * ((cs ! (i - 1) + cs ! i) / 2))) \<and>
   (sorted ts \<and> ts \<noteq> [] \<longrightarrow>
      calculateAUC (map Fin ts) (map Fin (replicate (length ts) c)) = Fin (c * (last ts - hd ts))) \<and>
   (length tps \<le> 1 \<longrightarrow> calculateAUC tps concs = Fin 0)"
proof (intro conjI impI)
  assume len: "length cs = length ts"
  show "calculateAUC (map Fin ts) (map Fin cs) =
        Fin (\<Sum>i = 1..<length ts. (ts ! i - ts ! (i - 1)) * ((cs ! (i - 1) + cs ! i) / 2))"
    using auc_prefix [OF len, of "length ts"] by (simp add: calculateAUC_def mult.commute)
next
  assume a: "sorted ts \<and> ts \<noteq> []"
  let ?cs = "replicate (length ts) c"
  have len: "length ?cs = length ts" by simp
  have "calculateAUC (map Fin ts) (map Fin ?cs) =
      Fin (\<Sum>i = 1..<length ts. (?cs ! (i - 1) + ?cs ! i) / 2 * (ts ! i - ts ! (i - 1)))"
    using auc_prefix [OF len, of "length ts"] by (simp add: calculateAUC_def)
  also have "(\<Sum>i = 1..<length ts. (?cs ! (i - 1) + ?cs ! i) / 2 * (ts ! i - ts ! (i - 1))) =
      (\<Sum>i = 1..<length ts. (c + c) / 2 * (ts ! i - ts ! (i - 1)))"
    by (rule sum.cong) auto
  also have "\<dots> = c * (ts ! (length ts - 1) - ts ! 0)"
    using a by (intro auc_const_sum) auto
  also have "\<dots> = c * (last ts - hd ts)"
    using a by (simp add: last_conv_nth hd_conv_nth)
  finally show "calculateAUC (map Fin ts) (map Fin (replicate (length ts) c)) = Fin (c * (last ts - hd ts))" .
next
  assume "length tps \<le> 1"
  then show "calculateAUC tps concs = Fin 0" by (rule calculateAUC_short)
qed

section \<open>The AUC integrator in binary64 arithmetic\<close>

lemma auc_step64_exact:
  assumes "auc_step_exact tps concs auc i"
  shows "b64_finite (auc_step64 tps concs auc i) \<and>
         b64_val (auc_step64 tps concs auc i) = b64_val auc + trapezoid64 tps concs i"
  using assms
  by (simp add: auc_step_exact_def auc_step64_def exact_op_def Let_def trapezoid64_def)

lemma auc_fold_exact:
  "auc_exact tps concs auc js \<Longrightarrow> b64_finite auc \<Longrightarrow>
     b64_finite (foldl (auc_step64 tps concs) auc js) \<and>
     b64_val (foldl (auc_step64 tps concs) auc js) =
       b64_val auc + sum_list (map (trapezoid64 tps concs) js)"
proof (induction js arbitrary: auc)
  case Nil
  then show ?case by simp
next
  case (Cons j js)
  from Cons.prems have s: "auc_step_exact tps concs auc j"
    and r: "auc_exact tps concs (auc_step64 tps concs auc j) js"
    by simp_all
  from auc_step64_exact [OF s] Cons.IH [OF r] show ?case
    by (simp add: algebra_simps)
qed

lemma calculateAUC64_sum:
  assumes "rounding_free tps concs"
  shows "b64_finite (calculateAUC64 tps concs) \<and>
         b64_val (calculateAUC64 tps concs) = (\<Sum>i = 1..<length tps. trapezoid64 tps concs i)"
  using auc_fold_exact [of tps concs "B64 0 0" "[1..<length tps]"] assms
  by (simp add: rounding_free_def calculateAUC64_def interv_sum_list_conv_sum_set_nat)

lemma calculateAUC64_short: "length tps \<le> 1 \<Longrightarrow> calculateAUC64 tps concs = B64 0 0"
  by (simp add: calculateAUC64_def)

lemma trapezoid64_const:
  assumes "0 < i" "i < length tps"
  shows "trapezoid64 tps (replicate (length tps) c) i =
           (b64_val c + b64_val c) / 2 * (map b64_val tps ! i - map b64_val tps ! (i - 1))"
proof -
  let ?cs = "replicate (length tps) c"
  have i: "i - 1 < length tps" using assms by simp
  have t: "b64_at tps i = tps ! i" "b64_at tps (i - 1) = tps ! (i - 1)"
    using assms i by (simp_all add: b64_at_def)
  have c: "b64_at ?cs i = c" "b64_at ?cs (i - 1) = c"
    using assms i by (simp_all add: b64_at_def)
  have m: "map b64_val tps ! i = b64_val (tps ! i)"
    "map b64_val tps ! (i - 1) = b64_val (tps ! (i - 1))"
    using assms i by simp_all
  show ?thesis
    unfolding trapezoid64_def t c m by (simp only: mult.commute)
qed

lemma calculateAUC64_const:
  assumes "tps \<noteq> []" and "rounding_free tps (replicate (length tps) c)"
  shows "b64_val (calculateAUC64 tps (replicate (length tps) c)) =
           b64_val c * (b64_val (last tps) - b64_val (hd tps))"
proof -
  let ?n = "length tps"
  have n: "0 < ?n" using assms(1) by simp
  have "b64_val (calculateAUC64 tps (replicate ?n c)) =
        (\<Sum>i = 1..<?n. trapezoid64 tps (replicate ?n c) i)"
    using calculateAUC64_sum [OF assms(2)] by simp
  also have "\<dots> = (\<Sum>i = 1..<?n. (b64_val c + b64_val c) / 2 *
                      (map b64_val tps ! i - map b64_val tps ! (i - 1)))"
    by (rule sum.cong) (simp_all add: trapezoid64_const)
  also have "\<dots> = b64_val c * (map b64_val tps ! (?n - 1) - map b64_val tps ! 0)"
    using n by (intro auc_const_sum) simp_all
  also have "\<dots> = b64_val c * (b64_val (last tps) - b64_val (hd tps))"
    using assms(1) n by (simp add: last_conv_nth hd_conv_nth)
  finally show ?thesis .
qed

text \<open>
  C9, as amended. \<^const>\<open>calculateAUC64\<close> returns 0 for an empty and for a single-sample
  series. When no operation of its loop rounds, the value it returns is the trapezoidal sum
  over consecutive pairs, \<open>\<Sum> \<Delta>t \<cdot> (c[i-1] + c[i]) / 2\<close>, and on a series with the constant
  concentration \<open>c\<close> it is \<open>c \<cdot> (t1 - t0)\<close>, from the first time to the last.
\<close>

theorem calculateAUC64_trapezoid:
  "(length tps \<le> 1 \<longrightarrow> calculateAUC64 tps concs = B64 0 0) \<and>
   (rounding_free tps concs \<longrightarrow>
      b64_finite (calculateAUC64 tps concs) \<and>
      b64_val (calculateAUC64 tps concs) =
        (\<Sum>i = 1..<length tps.
           (b64_val (b64_at tps i) - b64_val (b64_at tps (i - 1))) *
           ((b64_val (b64_at concs (i - 1)) + b64_val (b64_at concs i)) / 2))) \<and>
   (tps \<noteq> [] \<and> rounding_free tps (replicate (length tps) c) \<longrightarrow>
      b64_val (calculateAUC64 tps (replicate (length tps) c)) =
        b64_val c * (b64_val (last tps) - b64_val (hd tps)))"
  using calculateAUC64_short [of tps concs] calculateAUC64_sum [of tps concs]
    calculateAUC64_const [of tps c]
  unfolding trapezoid64_def by blast

lemma upt_1_3: "[1..<3] = [1, 2]"
  by (simp add: upt_rec)

lemma upt_1_4: "[1..<4] = [1, 2, 3]"
  by (simp add: upt_rec)

lemma rounding_free_example:
  "rounding_free [B64 0 0, B64 1 0, B64 3 0] [B64 5 0, B64 5 0, B64 5 0]"
  by (simp add: rounding_free_def auc_step_exact_def auc_step64_def exact_op_def b64_at_def
      upt_1_3 b64_ev)

theorem calculateAUC64_trapezoid_witness:
  "calculateAUC64 [B64 0 0] [B64 5 0] = B64 0 0 \<and>
   rounding_free [B64 0 0, B64 1 0, B64 3 0] [B64 5 0, B64 5 0, B64 5 0] \<and>
   b64_finite (calculateAUC64 [B64 0 0, B64 1 0, B64 3 0] [B64 5 0, B64 5 0, B64 5 0]) \<and>
   b64_val (calculateAUC64 [B64 0 0, B64 1 0, B64 3 0] [B64 5 0, B64 5 0, B64 5 0]) = 15"
proof -
  let ?tps = "[B64 0 0, B64 1 0, B64 3 0]"
  have r: "rounding_free ?tps (replicate (length ?tps) (B64 5 0))"
    using rounding_free_example by (simp add: numeral_3_eq_3)
  have a: "calculateAUC64 [B64 0 0] [B64 5 0] = B64 0 0"
    using calculateAUC64_trapezoid [of "[B64 0 0]" "[B64 5 0]" "B64 5 0"] by simp
  have b: "b64_finite (calculateAUC64 ?tps [B64 5 0, B64 5 0, B64 5 0])"
    using calculateAUC64_trapezoid [of ?tps "[B64 5 0, B64 5 0, B64 5 0]" "B64 5 0"]
      rounding_free_example by blast
  have c: "b64_val (calculateAUC64 ?tps (replicate (length ?tps) (B64 5 0))) =
           b64_val (B64 5 0) * (b64_val (last ?tps) - b64_val (hd ?tps))"
    using calculateAUC64_trapezoid [of ?tps "[B64 5 0, B64 5 0, B64 5 0]" "B64 5 0"] r
    by blast
  have d: "b64_val (calculateAUC64 ?tps [B64 5 0, B64 5 0, B64 5 0]) = 15"
    using c by (simp add: numeral_3_eq_3)
  show ?thesis using a rounding_free_example b d by blast
qed

text \<open>
  With rounding the last clause of the claim fails. On the times 0, 0.1, 0.2 and 0.3 and
  the constant concentration 3 the three products are 0.30000000000000004, the same, and
  0.29999999999999993, and their rounded sums give 0.9. The product \<open>c \<cdot> (t1 - t0)\<close>
  is 0.8999999999999999 when it is computed in binary64, and it is not 0.9 on the reals
  either, since the binary64 number 0.3 is below three tenths.
\<close>

theorem calculateAUC64_counterexample:
  "calculateAUC64 [B64 0 0, decimal64 1 1, decimal64 2 1, decimal64 3 1]
     [B64 3 0, B64 3 0, B64 3 0, B64 3 0] = B64 8106479329266893 (- 53) \<and>
   b64_mul (B64 3 0) (b64_sub (decimal64 3 1) (B64 0 0)) = B64 8106479329266892 (- 53) \<and>
   b64_less (B64 8106479329266892 (- 53)) (B64 8106479329266893 (- 53)) \<and>
   b64_val (B64 8106479329266893 (- 53)) \<noteq>
     b64_val (B64 3 0) * (b64_val (decimal64 3 1) - b64_val (B64 0 0)) \<and>
   b64_less (B64 0 0) (decimal64 1 1) \<and> b64_less (decimal64 1 1) (decimal64 2 1) \<and>
   b64_less (decimal64 2 1) (decimal64 3 1)"
proof -
  have d: "decimal64 1 1 = B64 7205759403792794 (- 56)"
    "decimal64 2 1 = B64 7205759403792794 (- 55)"
    "decimal64 3 1 = B64 5404319552844595 (- 54)"
    by (simp_all add: b64_ev)
  show ?thesis
    unfolding d
    by (simp add: calculateAUC64_def auc_step64_def b64_at_def upt_1_4 b64_ev)
qed

section \<open>Validation and the guard of the run\<close>

lemma validateDrugParams_violations: "validateDrugParams d = violations d"
  by (simp add: validateDrugParams_def violations_def regimenRules_def not_less not_le)

lemma validateInhibitorParams_violations: "validateInhibitorParams d = violations d"
  by (simp add: validateInhibitorParams_def violations_def regimenRules_def not_less not_le)

text \<open>
  C3. When a rule of either regimen is violated or \<^verbatim>\<open>timeStep\<close> is not positive,
  \<^verbatim>\<open>runSimulation\<close> commits no summary, no time series and no cycle metrics (the
  ones committed before stay as they are), and the two error lists it reports are the
  violation lists of the two regimens: one message for every rule that fails, each rule
  checked on its own, the empty list for a valid regimen.
\<close>

theorem runSimulation_rejects:
  assumes "violations (drugParams s) \<noteq> [] \<or> violations (inhibitorParams s) \<noteq> []
             \<or> timeStep (simParams s) \<le> 0"
  shows "results (runSimulation runId s) = results s \<and>
         chartData (runSimulation runId s) = chartData s \<and>
         cycleResults (runSimulation runId s) = cycleResults s \<and>
         drugValidationErrors (runSimulation runId s) = violations (drugParams s) \<and>
         inhibitorValidationErrors (runSimulation runId s) = violations (inhibitorParams s)"
  using assms
  by (auto simp add: runSimulation_def Let_def validateDrugParams_violations
      validateInhibitorParams_violations)

theorem runSimulation_rejects_witness:
  "violations (drugParams (initialComponent\<lparr>drugParams :=
       defaultDrugParams\<lparr>dosingInterval := 0, halfLife := 0\<rparr>\<rparr>)) =
     [''Dosing interval must be positive'', ''Infusion time cannot exceed dosing interval'',
      ''Half-life must be positive''] \<and>
   results (runSimulation 1 (initialComponent\<lparr>drugParams :=
       defaultDrugParams\<lparr>dosingInterval := 0, halfLife := 0\<rparr>\<rparr>)) = None \<and>
   drugValidationErrors (runSimulation 1 (initialComponent\<lparr>drugParams :=
       defaultDrugParams\<lparr>dosingInterval := 0, halfLife := 0\<rparr>\<rparr>)) =
     [''Dosing interval must be positive'', ''Infusion time cannot exceed dosing interval'',
      ''Half-life must be positive''] \<and>
   inhibitorValidationErrors (runSimulation 1 (initialComponent\<lparr>drugParams :=
       defaultDrugParams\<lparr>dosingInterval := 0, halfLife := 0\<rparr>\<rparr>)) = []"
proof -
  let ?s = "initialComponent\<lparr>drugParams := defaultDrugParams\<lparr>dosingInterval := 0, halfLife := 0\<rparr>\<rparr>"
  have v: "violations (drugParams ?s) =
     [''Dosing interval must be positive'', ''Infusion time cannot exceed dosing interval'',
      ''Half-life must be positive'']"
    by (simp add: violations_def regimenRules_def initialComponent_def defaultDrugParams_def)
  have w: "violations (inhibitorParams ?s) = []"
    by (simp add: violations_def regimenRules_def initialComponent_def defaultInhibitorParams_def)
  have r: "results ?s = None" by (simp add: initialComponent_def)
  have "violations (drugParams ?s) \<noteq> [] \<or> violations (inhibitorParams ?s) \<noteq> []
             \<or> timeStep (simParams ?s) \<le> 0"
    using v by simp
  from runSimulation_rejects [OF this, of 1] show ?thesis
    using v w r by simp
qed

section \<open>The dynamic MIC\<close>

lemma pow_50_200: "Math_pow (Fin 50) (Fin 200) = PInf"
  by (simp add: in_range64_def inf_of_sign_def)

lemma pow_25_200: "Math_pow (Fin 25) (Fin 200) = Fin (25 ^ 200)"
  by (simp add: in_range64_def inf_of_sign_def)

lemma tenth_400_underflows: "\<bar>(0.1::real) powr 400\<bar> \<le> 1 / 2 ^ 1075"
proof -
  have "(0.1::real) powr 400 = (1 / 10) ^ 400" by simp
  also have "\<dots> = 1 / 10 ^ 400" by (simp only: power_one_over)
  also have "\<dots> \<le> 1 / 2 ^ 1075" by (intro divide_left_mono) simp_all
  finally show ?thesis by simp
qed

lemma pow_tenth_400: "Math_pow (Fin 0.1) (Fin 400) = Fin 0"
proof -
  have "\<not> 2 ^ 1024 - 2 ^ 970 \<le> \<bar>(0.1::real) powr 400\<bar>"
    using tenth_400_underflows by simp
  then show ?thesis
    using tenth_400_underflows by (simp add: in_range64_def del: powr_numeral)
qed

lemma pow_2_2: "Math_pow (Fin 2) (Fin 2) = Fin 4"
  by (simp add: in_range64_def inf_of_sign_def)

lemma pow_0: "Math_pow (Fin 0) (Fin 200) = Fin 0" "Math_pow (Fin 0) (Fin 400) = Fin 0"
  by simp_all

text \<open>
  C8. \<^verbatim>\<open>calculateLog2MIC\<close> divides \<open>imax \<cdot> c\<^sup>h\<close> by \<open>c\<^sup>h + ic50\<^sup>h\<close>, two powers
  that leave the range of binary64 for Hill coefficients the input field accepts (it has
  a lower bound of 0.1 and no upper bound). With the default parameters and
  \<open>hillCoeff = 200\<close> the MIC at the inhibitor concentration 0 is \<open>2\<^sup>2 = 4\<close>, but at the
  concentration 50 the power \<open>50\<^sup>2\<^sup>0\<^sup>0\<close> is \<^verbatim>\<open>Infinity\<close>, the quotient is
  \<^verbatim>\<open>Infinity / Infinity\<close> and the MIC is \<^verbatim>\<open>NaN\<close>, which is not at most 4. With
  \<open>ic50 = 0.1\<close> and \<open>hillCoeff = 400\<close> the power \<open>0.1\<^sup>4\<^sup>0\<^sup>0\<close> is 0, the quotient at
  the concentration 0 is \<^verbatim>\<open>0 / 0\<close> and the MIC there is \<^verbatim>\<open>NaN\<close>, not \<open>2\<^sup>2\<close>.
\<close>

theorem dynamicMIC_overflow:
  "dynamicMIC \<lparr>log2MIC0 = 2, imax = 3, ic50 = 25, hillCoeff = 200\<rparr> (Fin 0) = Fin 4 \<and>
   dynamicMIC \<lparr>log2MIC0 = 2, imax = 3, ic50 = 25, hillCoeff = 200\<rparr> (Fin 50) = NaN \<and>
   \<not> dynamicMIC \<lparr>log2MIC0 = 2, imax = 3, ic50 = 25, hillCoeff = 200\<rparr> (Fin 50) \<le>
       dynamicMIC \<lparr>log2MIC0 = 2, imax = 3, ic50 = 25, hillCoeff = 200\<rparr> (Fin 0) \<and>
   dynamicMIC \<lparr>log2MIC0 = 2, imax = 3, ic50 = 0.1, hillCoeff = 400\<rparr> (Fin 0) = NaN"
proof -
  have a: "dynamicMIC \<lparr>log2MIC0 = 2, imax = 3, ic50 = 25, hillCoeff = 200\<rparr> (Fin 0) = Fin 4"
    unfolding dynamicMIC_def calculateLog2MIC_def Let_def PDParams.simps pow_0 pow_25_200
    using pow_2_2 by simp
  have b: "dynamicMIC \<lparr>log2MIC0 = 2, imax = 3, ic50 = 25, hillCoeff = 200\<rparr> (Fin 50) = NaN"
    unfolding dynamicMIC_def calculateLog2MIC_def Let_def PDParams.simps pow_50_200 pow_25_200
    by (simp add: inf_of_sign_def minus_jsnum_def)
  have c: "dynamicMIC \<lparr>log2MIC0 = 2, imax = 3, ic50 = 0.1, hillCoeff = 400\<rparr> (Fin 0) = NaN"
    unfolding dynamicMIC_def calculateLog2MIC_def Let_def PDParams.simps pow_0 pow_tenth_400
    by (simp add: inf_of_sign_def minus_jsnum_def)
  show ?thesis
    unfolding a b c by simp
qed

section \<open>The loop and its closed form\<close>

declare sim_loop.simps [simp del]


lemma floor_quot_nonneg: "0 < D \<Longrightarrow> 0 \<le> t \<Longrightarrow> 0 \<le> \<lfloor>t / D\<rfloor>" for t D :: real
  by simp

lemma js_rem_nonneg:
  "0 < D \<Longrightarrow> 0 \<le> t \<Longrightarrow> js_rem (Fin t) (Fin D) = Fin (t - D * of_int \<lfloor>t / D\<rfloor>)"
  by (simp add: js_trunc_def)

lemma array_index_int:
  "0 \<le> z \<Longrightarrow> nat z < n \<Longrightarrow> array_index (Fin (of_int z)) n = Some (nat z)"
  by (simp add: array_index_def is_integer_def)

lemma sim_step_Some:
  assumes D: "0 < dosingInterval dp" and t: "0 \<le> t"
    and len: "length (cycleData st) = numCycles sp"
  shows "sim_step dp ip pd sp t st = Some (stepResult dp ip pd sp st t)"
proof -
  let ?z = "\<lfloor>t / dosingInterval dp\<rfloor>"
  have z: "0 \<le> ?z" using D t by simp
  have cc: "Math_floor (Fin t / Fin (dosingInterval dp)) = Fin (of_int ?z)"
    using D by simp
  have lt: "(real_of_int ?z < real (numCycles sp)) = (nat ?z < numCycles sp)"
    using z by linarith
  show ?thesis
  proof (cases "nat ?z < numCycles sp")
    case True
    then have le: "real_of_int ?z \<le> real (numCycles sp) - 1"
      using z by linarith
    have mn: "Math_min (Fin (of_int ?z)) (Fin (real (numCycles sp) - 1)) = Fin (of_int ?z)"
      using le by (simp add: Math_min_def)
    have ai: "array_index (Fin (of_int ?z)) (numCycles sp) = Some (nat ?z)"
      using z True by (rule array_index_int)
    show ?thesis
      using True D t
      by (simp add: sim_step_def Let_def cc lt mn len ai stepResult_def js_rem_nonneg
          cycleIndexOf_def timeInCycleOf_def micAt_def aboveAt_def del: js_rem.simps)
  next
    case False
    then show ?thesis
      using D t
      by (simp add: sim_step_def Let_def cc lt stepResult_def cycleIndexOf_def micAt_def
          aboveAt_def)
  qed
qed

lemma stepResult_length [simp]:
  "length (cycleData (stepResult dp ip pd sp st t)) = length (cycleData st)"
  by (simp add: stepResult_def)

lemma grid_empty: "0 < step \<Longrightarrow> tot < t \<Longrightarrow> grid step tot t = []"
proof -
  assume a: "0 < step" "tot < t"
  then have "(tot - t) / step < 0" by (simp add: divide_neg_pos)
  then have "\<lfloor>(tot - t) / step\<rfloor> < 0" by linarith
  then have "nat (\<lfloor>(tot - t) / step\<rfloor> + 1) = 0" by linarith
  then show ?thesis by (simp only: grid_def upt_0 list.map)
qed

lemma grid_unfold:
  assumes "0 < step" "t \<le> tot"
  shows "grid step tot t = t # grid step tot (t + step)"
proof -
  let ?n = "\<lfloor>(tot - t) / step\<rfloor>"
  have q: "(tot - (t + step)) / step = (tot - t) / step - 1"
    using assms by (simp add: field_simps)
  have n: "0 \<le> ?n" using assms by simp
  have m: "nat (?n + 1) = Suc (nat ?n)"
    using n by linarith
  have m': "nat (\<lfloor>(tot - (t + step)) / step\<rfloor> + 1) = nat ?n"
    by (simp add: q)
  have "map (\<lambda>k. t + real k * step) [0..<Suc (nat ?n)] =
        t # map (\<lambda>k. t + step + real k * step) [0..<nat ?n]"
    by (simp add: upt_conv_Cons map_Suc_upt [symmetric] del: upt_Suc) (simp add: algebra_simps)
  then show ?thesis
    by (simp only: grid_def m m')
qed

lemma sim_loop_fold:
  "0 < timeStep sp \<Longrightarrow> 0 < dosingInterval dp \<Longrightarrow> 0 \<le> t \<Longrightarrow>
   length (cycleData st) = numCycles sp \<Longrightarrow>
   sim_loop dp ip pd sp tot t st =
     Some (foldl (stepResult dp ip pd sp) st (grid (timeStep sp) tot t))"
proof (induction dp ip pd sp tot t st rule: sim_loop.induct)
  case (1 dp ip pd sp tot t st)
  show ?case
  proof (cases "t \<le> tot")
    case True
    have s: "sim_step dp ip pd sp t st = Some (stepResult dp ip pd sp st t)"
      using "1.prems" by (intro sim_step_Some) auto
    have "sim_loop dp ip pd sp tot (t + timeStep sp) (stepResult dp ip pd sp st t) =
          Some (foldl (stepResult dp ip pd sp) (stepResult dp ip pd sp st t)
                  (grid (timeStep sp) tot (t + timeStep sp)))"
      using "1.prems" True s by (intro "1.IH") auto
    then show ?thesis
      using True "1.prems" s
      by (subst sim_loop.simps) (simp add: grid_unfold)
  next
    case False
    then show ?thesis
      using "1.prems" by (subst sim_loop.simps) (simp add: grid_empty)
  qed
qed

lemma cycleSamples_snoc:
  "cycleSamples dp c (ts @ [t]) =
     cycleSamples dp c ts @ (if cycleIndexOf dp t = c then [t] else [])"
  by (simp add: cycleSamples_def)

lemma cycleOf_snoc_other:
  "cycleIndexOf dp t \<noteq> c \<Longrightarrow> cycleOf dp ip pd (ts @ [t]) c = cycleOf dp ip pd ts c"
  by (simp add: cycleOf_def cycleSamples_snoc)

lemma cycleOf_snoc_same:
  "cycleIndexOf dp t = c \<Longrightarrow>
   cycleOf dp ip pd (ts @ [t]) c =
     pushSample (timeInCycleOf dp t) (concentrationAt dp t) (concentrationAt ip t)
       (micAt ip pd t) (cycleOf dp ip pd ts c)"
  by (simp add: cycleOf_def cycleSamples_snoc pushSample_def)

lemma cycleData_snoc:
  "(if cycleIndexOf dp t < n
    then (map (cycleOf dp ip pd ts) [0..<n])
           [cycleIndexOf dp t :=
              pushSample (timeInCycleOf dp t) (concentrationAt dp t) (concentrationAt ip t)
                (micAt ip pd t) (map (cycleOf dp ip pd ts) [0..<n] ! cycleIndexOf dp t)]
    else map (cycleOf dp ip pd ts) [0..<n]) =
   map (cycleOf dp ip pd (ts @ [t])) [0..<n]"
proof (cases "cycleIndexOf dp t < n")
  case True
  show ?thesis
  proof (rule nth_equalityI)
    show "length (if cycleIndexOf dp t < n
      then (map (cycleOf dp ip pd ts) [0..<n])
           [cycleIndexOf dp t :=
              pushSample (timeInCycleOf dp t) (concentrationAt dp t) (concentrationAt ip t)
                (micAt ip pd t) (map (cycleOf dp ip pd ts) [0..<n] ! cycleIndexOf dp t)]
      else map (cycleOf dp ip pd ts) [0..<n]) = length (map (cycleOf dp ip pd (ts @ [t])) [0..<n])"
      by simp
  next
    fix i
    assume "i < length (if cycleIndexOf dp t < n
      then (map (cycleOf dp ip pd ts) [0..<n])
           [cycleIndexOf dp t :=
              pushSample (timeInCycleOf dp t) (concentrationAt dp t) (concentrationAt ip t)
                (micAt ip pd t) (map (cycleOf dp ip pd ts) [0..<n] ! cycleIndexOf dp t)]
      else map (cycleOf dp ip pd ts) [0..<n])"
    then have i: "i < n" by (simp split: if_splits)
    show "(if cycleIndexOf dp t < n
      then (map (cycleOf dp ip pd ts) [0..<n])
           [cycleIndexOf dp t :=
              pushSample (timeInCycleOf dp t) (concentrationAt dp t) (concentrationAt ip t)
                (micAt ip pd t) (map (cycleOf dp ip pd ts) [0..<n] ! cycleIndexOf dp t)]
      else map (cycleOf dp ip pd ts) [0..<n]) ! i = map (cycleOf dp ip pd (ts @ [t])) [0..<n] ! i"
    proof (cases "cycleIndexOf dp t = i")
      case True
      then show ?thesis using i by (simp add: cycleOf_snoc_same)
    next
      case False
      then show ?thesis using i True by (simp add: cycleOf_snoc_other)
    qed
  qed
next
  case False
  have "map (cycleOf dp ip pd (ts @ [t])) [0..<n] = map (cycleOf dp ip pd ts) [0..<n]"
    by (rule map_cong) (use False in \<open>auto simp: cycleOf_snoc_other\<close>)
  then show ?thesis using False by simp
qed

lemma stepResult_stateOf:
  "stepResult dp ip pd sp (stateOf dp ip pd sp ts) t = stateOf dp ip pd sp (ts @ [t])"
proof (cases "cycleIndexOf dp t < numCycles sp")
  case True
  with cycleData_snoc [of dp t "numCycles sp" ip pd ts]
  have "(map (cycleOf dp ip pd ts) [0..<numCycles sp])
           [cycleIndexOf dp t :=
              pushSample (timeInCycleOf dp t) (concentrationAt dp t) (concentrationAt ip t)
                (micAt ip pd t) (cycleOf dp ip pd ts (cycleIndexOf dp t))] =
        map (cycleOf dp ip pd (ts @ [t])) [0..<numCycles sp]"
    by simp
  with True show ?thesis
    by (simp add: stepResult_def stateOf_def)
next
  case False
  with cycleData_snoc [of dp t "numCycles sp" ip pd ts]
  have "map (cycleOf dp ip pd ts) [0..<numCycles sp] =
        map (cycleOf dp ip pd (ts @ [t])) [0..<numCycles sp]"
    by (simp only: if_False)
  with False show ?thesis
    by (simp add: stepResult_def stateOf_def)
qed

lemma initialState_stateOf: "initialState sp = stateOf dp ip pd sp []"
  by (simp add: initialState_def stateOf_def cycleOf_def cycleSamples_def emptyCycle_def)

lemma foldl_stepResult:
  "foldl (stepResult dp ip pd sp) (stateOf dp ip pd sp []) ts = stateOf dp ip pd sp ts"
  by (induction ts rule: rev_induct) (simp_all add: stepResult_stateOf)

lemma finalState_closed:
  assumes "0 < timeStep sp" "0 < dosingInterval dp"
  shows "finalState dp ip pd sp = Some (stateOf dp ip pd sp (sampleTimes dp sp))"
proof -
  have "length (cycleData (initialState sp)) = numCycles sp"
    by (simp add: initialState_def)
  then have "sim_loop dp ip pd sp (real (numCycles sp) * dosingInterval dp) 0 (initialState sp) =
      Some (foldl (stepResult dp ip pd sp) (initialState sp)
              (grid (timeStep sp) (real (numCycles sp) * dosingInterval dp) 0))"
    using assms by (intro sim_loop_fold) auto
  then show ?thesis
    by (simp add: finalState_def sampleTimes_def initialState_stateOf [of sp dp ip pd]
        foldl_stepResult)
qed

lemma violations_empty:
  "violations d = [] \<longleftrightarrow>
     0 < dosingInterval d \<and> 0 \<le> infusionTime d \<and> infusionTime d \<le> dosingInterval d \<and>
     0 < halfLife d \<and> 0 < maxConcentration d"
  by (auto simp add: violations_def regimenRules_def)

subsection \<open>The sample times\<close>

lemma sampleTimes_length:
  "length (sampleTimes dp sp) =
     nat (\<lfloor>real (numCycles sp) * dosingInterval dp / timeStep sp\<rfloor> + 1)"
  by (simp add: sampleTimes_def grid_def)

lemma sampleTimes_nth:
  "k < length (sampleTimes dp sp) \<Longrightarrow> sampleTimes dp sp ! k = real k * timeStep sp"
  by (simp add: sampleTimes_def grid_def)

lemma sampleTimes_set:
  assumes "0 < timeStep sp"
  shows "t \<in> set (sampleTimes dp sp) \<longleftrightarrow>
     (\<exists>k::nat. t = real k * timeStep sp \<and> t \<le> real (numCycles sp) * dosingInterval dp)"
proof -
  let ?T = "real (numCycles sp) * dosingInterval dp"
  let ?h = "timeStep sp"
  have key: "(k < nat (\<lfloor>?T / ?h\<rfloor> + 1)) = (real k * ?h \<le> ?T)" for k :: nat
  proof -
    have "(k < nat (\<lfloor>?T / ?h\<rfloor> + 1)) = (int k \<le> \<lfloor>?T / ?h\<rfloor>)" by linarith
    also have "\<dots> = (real k \<le> ?T / ?h)" by (simp add: le_floor_iff)
    also have "\<dots> = (real k * ?h \<le> ?T)" using assms by (simp add: pos_le_divide_eq)
    finally show ?thesis .
  qed
  show ?thesis
    by (auto simp add: sampleTimes_def grid_def key image_iff)
qed

lemma sampleTimes_bounds:
  assumes "0 < timeStep sp" "t \<in> set (sampleTimes dp sp)"
  shows "0 \<le> t \<and> t \<le> real (numCycles sp) * dosingInterval dp"
  using assms by (auto simp add: sampleTimes_set)

lemma cycleIndexOf_inside:
  assumes "0 < dosingInterval dp" "0 \<le> t" "t < real n * dosingInterval dp"
  shows "cycleIndexOf dp t < n"
proof -
  have "t / dosingInterval dp < real n"
    using assms by (simp add: pos_divide_less_eq)
  then have "\<lfloor>t / dosingInterval dp\<rfloor> < int n"
    by (simp add: floor_less_iff)
  moreover have "0 \<le> \<lfloor>t / dosingInterval dp\<rfloor>"
    using assms by simp
  ultimately show ?thesis
    unfolding cycleIndexOf_def by linarith
qed

lemma cycleIndexOf_boundary:
  assumes "0 < dosingInterval dp"
  shows "\<lfloor>real n * dosingInterval dp / dosingInterval dp\<rfloor> = int n"
    and "cycleIndexOf dp (real n * dosingInterval dp) = n"
  using assms by (simp_all add: cycleIndexOf_def)

lemma cycleSamples_set:
  "t \<in> set (cycleSamples dp c ts) \<longleftrightarrow> t \<in> set ts \<and> cycleIndexOf dp t = c"
  by (auto simp add: cycleSamples_def)

lemma sampleTimes_nonempty:
  assumes "0 < timeStep sp" "0 \<le> dosingInterval dp"
  shows "sampleTimes dp sp \<noteq> []"
proof -
  have "(0::real) \<in> set (sampleTimes dp sp)"
    using assms by (simp add: sampleTimes_set)
  then show ?thesis by auto
qed

subsection \<open>Counting\<close>

lemma foldl_count:
  "foldl (\<lambda>sum i. sum + (if P i then Fin 1 else Fin 0)) (Fin a) xs =
     Fin (a + real (length (filter P xs)))"
  by (induction xs arbitrary: a) (simp_all add: algebra_simps)

lemma foldl_flags:
  "foldl (\<lambda>sum val. sum + val) (Fin a) (map (\<lambda>t. if P t then Fin 1 else Fin 0) ts) =
     Fin (a + real (length (filter P ts)))"
  by (induction ts arbitrary: a) (simp_all add: algebra_simps)

lemma percent_range:
  assumes "k \<le> n" "0 < n"
  shows "(Fin (real k) / Fin (real n)) * Fin 100 = Fin (real k / real n * 100) \<and>
         0 \<le> real k / real n * 100 \<and> real k / real n * 100 \<le> 100"
  using assms by (simp add: divide_le_eq)

lemma percentAbove_range:
  assumes "ts \<noteq> []"
  shows "\<exists>p. percentAbove (map (aboveAt dp ip pd) ts) = Fin p \<and> 0 \<le> p \<and> p \<le> 100"
proof -
  let ?P = "\<lambda>t. concentrationAt dp t \<ge> micAt ip pd t"
  let ?k = "length (filter ?P ts)"
  have m: "map (aboveAt dp ip pd) ts = map (\<lambda>t. if ?P t then Fin 1 else Fin 0) ts"
    by (simp add: aboveAt_def)
  have "percentAbove (map (aboveAt dp ip pd) ts) =
        (Fin (real ?k) / Fin (real (length ts))) * Fin 100"
    unfolding m percentAbove_def Let_def foldl_flags by simp
  moreover have "?k \<le> length ts" by simp
  moreover have "0 < length ts" using assms by simp
  ultimately show ?thesis
    using percent_range [of ?k "length ts"] by auto
qed

lemma cycleMetrics_percent_range:
  assumes "timePoints c \<noteq> []"
  shows "\<exists>q. cyclePercentTOverMIC (cycleMetrics c) = Fin q \<and> 0 \<le> q \<and> q \<le> 100"
proof -
  let ?n = "length (timePoints c)"
  let ?P = "\<lambda>i. js_at (drugConcentrations c) i \<ge> js_at (micValues c) i"
  let ?k = "length (filter ?P [0..<?n])"
  have "cyclePercentTOverMIC (cycleMetrics c) = (Fin (real ?k) / Fin (real ?n)) * Fin 100"
    unfolding cycleMetrics_def Let_def foldl_count by simp
  moreover have "?k \<le> ?n"
    using length_filter_le [of ?P "[0..<?n]"] by simp
  moreover have "0 < ?n" using assms by simp
  ultimately show ?thesis
    using percent_range [of ?k ?n] by auto
qed

lemma cycleMetrics_percent_empty:
  "timePoints c = [] \<Longrightarrow> cyclePercentTOverMIC (cycleMetrics c) = NaN"
  by (simp add: cycleMetrics_def Let_def inf_of_sign_def)

lemma stateOf_simps [simp]:
  "timePoints (stateOf dp ip pd sp ts) = map Fin ts"
  "drugConcentrations (stateOf dp ip pd sp ts) = map (concentrationAt dp) ts"
  "inhibitorConcentrations (stateOf dp ip pd sp ts) = map (concentrationAt ip) ts"
  "micValues (stateOf dp ip pd sp ts) = map (micAt ip pd) ts"
  "tOverMIC (stateOf dp ip pd sp ts) = map (aboveAt dp ip pd) ts"
  "cycleData (stateOf dp ip pd sp ts) = map (cycleOf dp ip pd ts) [0..<numCycles sp]"
  by (simp_all add: stateOf_def)

lemma cycleOf_timePoints [simp]:
  "timePoints (cycleOf dp ip pd ts c) = map (timeInCycleOf dp) (cycleSamples dp c ts)"
  by (simp add: cycleOf_def)

section \<open>Percent time above the MIC\<close>

lemma toFixed_range:
  assumes "0 \<le> p" "p \<le> 100"
  shows "\<exists>q. toFixed 1 (Fin p) = Fin q \<and> 0 \<le> q \<and> q \<le> 100"
proof -
  have f: "\<lfloor>p * 10 + 1 / 2\<rfloor> \<le> 1000" using assms(2) by linarith
  have g: "0 \<le> \<lfloor>p * 10 + 1 / 2\<rfloor>" using assms(1) by linarith
  have h: "real_of_int \<lfloor>p * 10 + 1 / 2\<rfloor> \<le> 1000" using f by linarith
  have k: "0 \<le> real_of_int \<lfloor>p * 10 + 1 / 2\<rfloor>" using g by linarith
  have e: "toFixed 1 (Fin p) = Fin (real_of_int \<lfloor>p * 10 + 1 / 2\<rfloor> / 10)"
  proof (cases "p = 0")
    case True
    then show ?thesis by (simp add: toFixed_def)
  next
    case False
    then have "sgn p = 1" "\<bar>p\<bar> = p" "\<not> 10 ^ 21 \<le> \<bar>p\<bar>" using assms by simp_all
    then show ?thesis by (simp add: toFixed_def)
  qed
  have "0 \<le> real_of_int \<lfloor>p * 10 + 1 / 2\<rfloor> / 10" using k by simp
  moreover have "real_of_int \<lfloor>p * 10 + 1 / 2\<rfloor> / 10 \<le> 100" using h by simp
  ultimately show ?thesis using e by blast
qed

text \<open>
  C2, as amended. Whatever samples the arrays of a cycle hold, the percentage of the cycle
  is a number in \<open>[0, 100]\<close> when the cycle has at least one sample, and \<^verbatim>\<open>NaN\<close>
  (\<^verbatim>\<open>0 / 0 * 100\<close>) when it has none. For a run that passes validation (the five rules
  for both regimens, \<open>timeStep > 0\<close>) the percentage of the whole horizon, and the value
  committed for it, are numbers in \<open>[0, 100]\<close>, and the run has one entry for each of its
  \<open>numCycles\<close> cycles, computed from the arrays of that cycle.
\<close>

theorem percentTOverMIC_range_or_NaN:
  "(timePoints c \<noteq> [] \<longrightarrow>
      (\<exists>q. cyclePercentTOverMIC (cycleMetrics c) = Fin q \<and> 0 \<le> q \<and> q \<le> 100)) \<and>
   (timePoints c = [] \<longrightarrow> cyclePercentTOverMIC (cycleMetrics c) = NaN) \<and>
   (violations dp = [] \<and> violations ip = [] \<and> 0 < timeStep sp \<longrightarrow>
      (\<exists>st. finalState dp ip pd sp = Some st \<and>
            (\<exists>p. percentAbove (tOverMIC st) = Fin p \<and> 0 \<le> p \<and> p \<le> 100) \<and>
            (\<exists>p. percentTOverMIC (resultsOf dp ip st) = Fin p \<and> 0 \<le> p \<and> p \<le> 100) \<and>
            length (cycleResultsOf st) = numCycles sp \<and>
            (\<forall>k<numCycles sp. cycleResultsOf st ! k = cycleMetrics (cycleData st ! k))))"
proof (intro conjI impI)
  assume "timePoints c \<noteq> []"
  then show "\<exists>q. cyclePercentTOverMIC (cycleMetrics c) = Fin q \<and> 0 \<le> q \<and> q \<le> 100"
    by (rule cycleMetrics_percent_range)
next
  assume "timePoints c = []"
  then show "cyclePercentTOverMIC (cycleMetrics c) = NaN"
    by (rule cycleMetrics_percent_empty)
next
  assume a: "violations dp = [] \<and> violations ip = [] \<and> 0 < timeStep sp"
  let ?ts = "sampleTimes dp sp"
  let ?st = "stateOf dp ip pd sp ?ts"
  have D: "0 < dosingInterval dp"
    using a by (simp add: violations_empty)
  have step: "0 < timeStep sp" using a by simp
  have fin: "finalState dp ip pd sp = Some ?st"
    using step D by (rule finalState_closed)
  have ne: "?ts \<noteq> []"
    using step D by (intro sampleTimes_nonempty) auto
  have agg: "\<exists>p. percentAbove (tOverMIC ?st) = Fin p \<and> 0 \<le> p \<and> p \<le> 100"
    using percentAbove_range [OF ne] by simp
  then obtain p where p: "percentAbove (tOverMIC ?st) = Fin p" "0 \<le> p" "p \<le> 100"
    by blast
  have res: "\<exists>p. percentTOverMIC (resultsOf dp ip ?st) = Fin p \<and> 0 \<le> p \<and> p \<le> 100"
    using toFixed_range [OF p(2,3)] p(1) by (simp add: resultsOf_def Let_def)
  have len: "length (cycleResultsOf ?st) = numCycles sp"
    by (simp add: cycleResultsOf_def)
  have nth: "\<forall>k<numCycles sp. cycleResultsOf ?st ! k = cycleMetrics (cycleData ?st ! k)"
    by (simp add: cycleResultsOf_def)
  show "\<exists>st. finalState dp ip pd sp = Some st \<and>
            (\<exists>p. percentAbove (tOverMIC st) = Fin p \<and> 0 \<le> p \<and> p \<le> 100) \<and>
            (\<exists>p. percentTOverMIC (resultsOf dp ip st) = Fin p \<and> 0 \<le> p \<and> p \<le> 100) \<and>
            length (cycleResultsOf st) = numCycles sp \<and>
            (\<forall>k<numCycles sp. cycleResultsOf st ! k = cycleMetrics (cycleData st ! k))"
    using fin agg res len nth by blast
qed

theorem percentTOverMIC_range_or_NaN_witness:
  "timePoints (pushSample (Fin 0) (Fin 5) (Fin 1) (Fin 4) (emptyCycle 0)) \<noteq> [] \<and>
   (\<exists>q. cyclePercentTOverMIC
          (cycleMetrics (pushSample (Fin 0) (Fin 5) (Fin 1) (Fin 4) (emptyCycle 0))) = Fin q \<and>
        0 \<le> q \<and> q \<le> 100) \<and>
   timePoints (emptyCycle 1) = [] \<and>
   cyclePercentTOverMIC (cycleMetrics (emptyCycle 1)) = NaN \<and>
   violations defaultDrugParams = [] \<and> violations defaultInhibitorParams = [] \<and>
   0 < timeStep defaultSimParams \<and>
   (\<exists>st. finalState defaultDrugParams defaultInhibitorParams defaultPdParams defaultSimParams
            = Some st \<and>
         (\<exists>p. percentAbove (tOverMIC st) = Fin p \<and> 0 \<le> p \<and> p \<le> 100) \<and>
         (\<exists>p. percentTOverMIC (resultsOf defaultDrugParams defaultInhibitorParams st) = Fin p \<and>
              0 \<le> p \<and> p \<le> 100) \<and>
         length (cycleResultsOf st) = 3 \<and>
         cycleResultsOf st ! 2 = cycleMetrics (cycleData st ! 2))"
proof -
  let ?c = "pushSample (Fin 0) (Fin 5) (Fin 1) (Fin 4) (emptyCycle 0)"
  have a: "violations defaultDrugParams = []"
    by (simp add: violations_def regimenRules_def defaultDrugParams_def)
  have b: "violations defaultInhibitorParams = []"
    by (simp add: violations_def regimenRules_def defaultInhibitorParams_def)
  have c: "0 < timeStep defaultSimParams"
    by (simp add: defaultSimParams_def)
  have n: "numCycles defaultSimParams = 3"
    by (simp add: defaultSimParams_def)
  have t1: "timePoints ?c \<noteq> []"
    by (simp add: pushSample_def emptyCycle_def)
  have t2: "timePoints (emptyCycle 1) = []"
    by (simp add: emptyCycle_def)
  have q1: "\<exists>q. cyclePercentTOverMIC (cycleMetrics ?c) = Fin q \<and> 0 \<le> q \<and> q \<le> 100"
    using percentTOverMIC_range_or_NaN [of ?c] t1 by blast
  have q2: "cyclePercentTOverMIC (cycleMetrics (emptyCycle 1)) = NaN"
    using percentTOverMIC_range_or_NaN [of "emptyCycle 1"] t2 by blast
  from percentTOverMIC_range_or_NaN
    [of ?c defaultDrugParams defaultInhibitorParams defaultSimParams defaultPdParams] a b c
  obtain st where st:
    "finalState defaultDrugParams defaultInhibitorParams defaultPdParams defaultSimParams = Some st"
    "\<exists>p. percentAbove (tOverMIC st) = Fin p \<and> 0 \<le> p \<and> p \<le> 100"
    "\<exists>p. percentTOverMIC (resultsOf defaultDrugParams defaultInhibitorParams st) = Fin p \<and>
         0 \<le> p \<and> p \<le> 100"
    "length (cycleResultsOf st) = numCycles defaultSimParams"
    "\<forall>k<numCycles defaultSimParams. cycleResultsOf st ! k = cycleMetrics (cycleData st ! k)"
    by blast
  from st(5) n have k: "cycleResultsOf st ! 2 = cycleMetrics (cycleData st ! 2)"
    by simp
  from st(4) n have l: "length (cycleResultsOf st) = 3" by simp
  show ?thesis
    using t1 q1 t2 q2 a b c st(1,2,3) l k by blast
qed

text \<open>
  A cycle without a sample occurs in valid runs, so the claim fails for the entries of the
  cycles: with the default regimens, three cycles and a time step of 48 h the run passes
  validation and samples at 0 h and 48 h only, the second cycle receives no sample and its
  percentage is \<^verbatim>\<open>0/0 * 100\<close>, which is \<^verbatim>\<open>NaN\<close>.
\<close>

lemma sampleTimes_48:
  "sampleTimes defaultDrugParams (defaultSimParams\<lparr>timeStep := 48\<rparr>) = [0, 48]"
proof -
  have "[0..<2] = [0, 1]" by (simp add: upt_rec)
  then show ?thesis
    by (simp add: sampleTimes_def grid_def defaultDrugParams_def defaultSimParams_def)
qed

theorem percentTOverMIC_counterexample:
  "violations defaultDrugParams = [] \<and> violations defaultInhibitorParams = [] \<and>
   0 < timeStep (defaultSimParams\<lparr>timeStep := 48\<rparr>) \<and>
   1 \<le> numCycles (defaultSimParams\<lparr>timeStep := 48\<rparr>) \<and>
   numCycles (defaultSimParams\<lparr>timeStep := 48\<rparr>) \<le> 10 \<and>
   finalState defaultDrugParams defaultInhibitorParams defaultPdParams
       (defaultSimParams\<lparr>timeStep := 48\<rparr>) =
     Some (stateOf defaultDrugParams defaultInhibitorParams defaultPdParams
             (defaultSimParams\<lparr>timeStep := 48\<rparr>) [0, 48]) \<and>
   timePoints (cycleResultsOf (stateOf defaultDrugParams defaultInhibitorParams defaultPdParams
             (defaultSimParams\<lparr>timeStep := 48\<rparr>) [0, 48]) ! 1) = [] \<and>
   cyclePercentTOverMIC
     (cycleResultsOf (stateOf defaultDrugParams defaultInhibitorParams defaultPdParams
             (defaultSimParams\<lparr>timeStep := 48\<rparr>) [0, 48]) ! 1) = NaN"
proof -
  let ?sp = "defaultSimParams\<lparr>timeStep := 48\<rparr>"
  let ?st = "stateOf defaultDrugParams defaultInhibitorParams defaultPdParams ?sp [0, 48]"
  have a: "violations defaultDrugParams = []"
    by (simp add: violations_def regimenRules_def defaultDrugParams_def)
  have b: "violations defaultInhibitorParams = []"
    by (simp add: violations_def regimenRules_def defaultInhibitorParams_def)
  have c: "0 < timeStep ?sp" "1 \<le> numCycles ?sp" "numCycles ?sp \<le> 10" "numCycles ?sp = 3"
    by (simp_all add: defaultSimParams_def)
  have D: "0 < dosingInterval defaultDrugParams"
    by (simp add: defaultDrugParams_def)
  have fin: "finalState defaultDrugParams defaultInhibitorParams defaultPdParams ?sp = Some ?st"
    using finalState_closed [OF c(1) D] by (simp add: sampleTimes_48)
  have u: "[0..<3] = [0, 1, 2]" by (simp add: upt_rec)
  have e: "cycleSamples defaultDrugParams 1 [0, 48] = []"
    by (simp add: cycleSamples_def cycleIndexOf_def defaultDrugParams_def)
  have nth: "cycleResultsOf ?st ! 1 =
      cycleMetrics (cycleOf defaultDrugParams defaultInhibitorParams defaultPdParams [0, 48] 1)"
    by (simp add: cycleResultsOf_def c(4) u)
  have tp: "timePoints (cycleOf defaultDrugParams defaultInhibitorParams defaultPdParams [0, 48] 1) = []"
    by (simp only: cycleOf_timePoints e list.map)
  have tp': "timePoints (cycleResultsOf ?st ! 1) = []"
    unfolding nth using tp by (simp add: cycleMetrics_def Let_def)
  have nan: "cyclePercentTOverMIC (cycleResultsOf ?st ! 1) = NaN"
    unfolding nth using tp by (rule cycleMetrics_percent_empty)
  show ?thesis
    using a b c(1,2,3) fin tp' nan by blast
qed

text \<open>
  A time step of at most the dosing interval does not rule this out. With the interval
  0.7 h, 4 cycles and the time step 0.7 h the sums are 0.7, 1.4, 2.0999999999999996 and
  2.8, the quotients by 0.7 round to the cycles 0, 1, 2, 2 and 4, and the fourth cycle
  receives no sample.
\<close>

lemma samples64_interval_07:
  "samples64 20 (decimal64 7 1) (decimal64 7 1) (totalTime64 4 (decimal64 7 1)) (B64 0 0) =
   Some [(B64 0 0, B64 0 0),
        (B64 6305039478318694 (- 53), B64 1 0),
        (B64 6305039478318694 (- 52), B64 2 0),
        (B64 4728779608739020 (- 51), B64 2 0),
        (B64 6305039478318694 (- 51), B64 4 0)]"
  unfolding decimal64_values by (simp add: b64_ev)

section \<open>The sample on the final boundary\<close>

lemma cycleOf_nth:
  "c < numCycles sp \<Longrightarrow>
   cycleData (stateOf dp ip pd sp ts) ! c = cycleOf dp ip pd ts c"
  by simp

text \<open>
  In exact arithmetic every sample of a valid run is kept in the full time series, the
  arrays of cycle \<open>c\<close> hold exactly the samples whose cycle index
  \<open>\<lfloor>t / dosingInterval\<rfloor>\<close> is \<open>c\<close>, the sample at
  \<open>totalTime = numCycles \<cdot> dosingInterval\<close> has the cycle index \<open>numCycles\<close> and is in no
  cycle, and every other sample is in a cycle.
\<close>

lemma exact_boundary_sample_excluded:
  assumes "violations dp = []" and "violations ip = []" and "0 < timeStep sp"
  shows "\<exists>st. finalState dp ip pd sp = Some st \<and>
           timePoints st = map Fin (sampleTimes dp sp) \<and>
           length (cycleData st) = numCycles sp \<and>
           (\<forall>c<numCycles sp.
              timePoints (cycleData st ! c) =
                map (timeInCycleOf dp) (cycleSamples dp c (sampleTimes dp sp)) \<and>
              drugConcentrations (cycleData st ! c) =
                map (concentrationAt dp) (cycleSamples dp c (sampleTimes dp sp)) \<and>
              inhibitorConcentrations (cycleData st ! c) =
                map (concentrationAt ip) (cycleSamples dp c (sampleTimes dp sp)) \<and>
              micValues (cycleData st ! c) =
                map (micAt ip pd) (cycleSamples dp c (sampleTimes dp sp))) \<and>
           (\<forall>t\<in>set (sampleTimes dp sp).
              t \<le> real (numCycles sp) * dosingInterval dp \<and>
              (t = real (numCycles sp) * dosingInterval dp \<longrightarrow>
                 \<lfloor>t / dosingInterval dp\<rfloor> = int (numCycles sp) \<and>
                 (\<forall>c<numCycles sp. t \<notin> set (cycleSamples dp c (sampleTimes dp sp)))) \<and>
              (t \<noteq> real (numCycles sp) * dosingInterval dp \<longrightarrow>
                 (\<exists>c<numCycles sp. t \<in> set (cycleSamples dp c (sampleTimes dp sp)))))"
proof -
  let ?ts = "sampleTimes dp sp"
  let ?st = "stateOf dp ip pd sp ?ts"
  let ?T = "real (numCycles sp) * dosingInterval dp"
  have D: "0 < dosingInterval dp"
    using assms(1) by (simp add: violations_empty)
  have fin: "finalState dp ip pd sp = Some ?st"
    using assms(3) D by (rule finalState_closed)
  have arrays: "\<forall>c<numCycles sp.
              timePoints (cycleData ?st ! c) =
                map (timeInCycleOf dp) (cycleSamples dp c ?ts) \<and>
              drugConcentrations (cycleData ?st ! c) =
                map (concentrationAt dp) (cycleSamples dp c ?ts) \<and>
              inhibitorConcentrations (cycleData ?st ! c) =
                map (concentrationAt ip) (cycleSamples dp c ?ts) \<and>
              micValues (cycleData ?st ! c) =
                map (micAt ip pd) (cycleSamples dp c ?ts)"
    by (simp add: cycleOf_def)
  have samples: "t \<le> ?T \<and>
              (t = ?T \<longrightarrow>
                 \<lfloor>t / dosingInterval dp\<rfloor> = int (numCycles sp) \<and>
                 (\<forall>c<numCycles sp. t \<notin> set (cycleSamples dp c ?ts))) \<and>
              (t \<noteq> ?T \<longrightarrow> (\<exists>c<numCycles sp. t \<in> set (cycleSamples dp c ?ts)))"
    if t: "t \<in> set ?ts" for t
  proof (intro conjI impI)
    show le: "t \<le> ?T"
      using sampleTimes_bounds [OF assms(3) t] by simp
    have nn: "0 \<le> t"
      using sampleTimes_bounds [OF assms(3) t] by simp
    {
      assume e: "t = ?T"
      show "\<lfloor>t / dosingInterval dp\<rfloor> = int (numCycles sp)"
        unfolding e using D by (rule cycleIndexOf_boundary(1))
      have "cycleIndexOf dp t = numCycles sp"
        unfolding e using D by (rule cycleIndexOf_boundary(2))
      then show "\<forall>c<numCycles sp. t \<notin> set (cycleSamples dp c ?ts)"
        by (simp add: cycleSamples_set)
    }
    {
      assume "t \<noteq> ?T"
      with le have "t < ?T" by simp
      then have "cycleIndexOf dp t < numCycles sp"
        using D nn by (intro cycleIndexOf_inside) auto
      then show "\<exists>c<numCycles sp. t \<in> set (cycleSamples dp c ?ts)"
        using t by (auto simp add: cycleSamples_set)
    }
  qed
  have "timePoints ?st = map Fin ?ts" "length (cycleData ?st) = numCycles sp"
    by simp_all
  with fin arrays samples show ?thesis
    by blast
qed

section \<open>The sample on the final boundary in binary64 arithmetic\<close>

lemma samples64_interval_14:
  "samples64 20 (B64 5404319552844595 (- 54)) (B64 6305039478318694 (- 52))
     (B64 4728779608739020 (- 50)) (B64 0 0) =
   Some [(B64 0 0, B64 0 0),
        (B64 5404319552844595 (- 54), B64 0 0),
        (B64 5404319552844595 (- 53), B64 0 0),
        (B64 8106479329266892 (- 53), B64 0 0),
        (B64 5404319552844595 (- 52), B64 0 0),
        (B64 6755399441055744 (- 52), B64 1 0),
        (B64 8106479329266893 (- 52), B64 1 0),
        (B64 4728779608739021 (- 51), B64 1 0),
        (B64 5404319552844595 (- 51), B64 1 0),
        (B64 6079859496950169 (- 51), B64 1 0),
        (B64 6755399441055743 (- 51), B64 2 0),
        (B64 7430939385161317 (- 51), B64 2 0),
        (B64 8106479329266891 (- 51), B64 2 0),
        (B64 8782019273372465 (- 51), B64 2 0),
        (B64 4728779608739020 (- 50), B64 2 0)]"
  by (simp add: b64_ev)

lemma samples64_interval_13:
  "samples64 20 (B64 5854679515581645 (- 53)) (B64 5854679515581645 (- 52))
     (B64 8782019273372468 (- 51)) (B64 0 0) =
   Some [(B64 0 0, B64 0 0),
        (B64 5854679515581645 (- 53), B64 0 0),
        (B64 5854679515581645 (- 52), B64 1 0),
        (B64 8782019273372468 (- 52), B64 1 0),
        (B64 5854679515581645 (- 51), B64 2 0),
        (B64 7318349394477056 (- 51), B64 2 0),
        (B64 8782019273372467 (- 51), B64 3 0)]"
  by (simp add: b64_ev)

text \<open>
  C4. A run with the dosing interval 1.4 h, 3 cycles and the time step 0.3 h. The product
  \<^verbatim>\<open>3 * 1.4\<close> rounds to 4.199999999999999 and the fourteen additions of 0.3 end on that
  very number, so the loop takes a fifteenth sample at \<open>t = totalTime\<close>. The quotient
  \<^verbatim>\<open>t / 1.4\<close> of that sample rounds to a number below 3, its \<^verbatim>\<open>currentCycle\<close> is 2, and
  the sample is pushed to the arrays of the third cycle: no sample of this run is left out
  of the cycles. With the interval 1.3 h and the time step 0.65 h the product rounds to
  3.9000000000000004 and the last sample is at 3.9, below \<open>totalTime\<close>; its
  \<^verbatim>\<open>currentCycle\<close> is 3, so this run leaves a sample out that is not at \<open>totalTime\<close>.
\<close>

theorem boundary_sample_binary64:
  "totalTime64 3 (decimal64 14 1) = B64 4728779608739020 (- 50) \<and>
   samples64 20 (decimal64 3 1) (decimal64 14 1) (totalTime64 3 (decimal64 14 1)) (B64 0 0) =
     Some [(B64 0 0, B64 0 0),
          (B64 5404319552844595 (- 54), B64 0 0),
          (B64 5404319552844595 (- 53), B64 0 0),
          (B64 8106479329266892 (- 53), B64 0 0),
          (B64 5404319552844595 (- 52), B64 0 0),
          (B64 6755399441055744 (- 52), B64 1 0),
          (B64 8106479329266893 (- 52), B64 1 0),
          (B64 4728779608739021 (- 51), B64 1 0),
          (B64 5404319552844595 (- 51), B64 1 0),
          (B64 6079859496950169 (- 51), B64 1 0),
          (B64 6755399441055743 (- 51), B64 2 0),
          (B64 7430939385161317 (- 51), B64 2 0),
          (B64 8106479329266891 (- 51), B64 2 0),
          (B64 8782019273372465 (- 51), B64 2 0),
          (B64 4728779608739020 (- 50), B64 2 0)] \<and>
   currentCycle64 (decimal64 14 1) (B64 4728779608739020 (- 50)) = B64 2 0 \<and>
   inCycle64 3 (B64 4728779608739020 (- 50), B64 2 0) \<and>
   totalTime64 3 (decimal64 13 1) = B64 8782019273372468 (- 51) \<and>
   samples64 20 (decimal64 65 2) (decimal64 13 1) (totalTime64 3 (decimal64 13 1)) (B64 0 0) =
     Some [(B64 0 0, B64 0 0),
          (B64 5854679515581645 (- 53), B64 0 0),
          (B64 5854679515581645 (- 52), B64 1 0),
          (B64 8782019273372468 (- 52), B64 1 0),
          (B64 5854679515581645 (- 51), B64 2 0),
          (B64 7318349394477056 (- 51), B64 2 0),
          (B64 8782019273372467 (- 51), B64 3 0)] \<and>
   \<not> inCycle64 3 (B64 8782019273372467 (- 51), B64 3 0) \<and>
   b64_less (B64 8782019273372467 (- 51)) (B64 8782019273372468 (- 51))"
proof -
  have t: "totalTime64 3 (B64 6305039478318694 (- 52)) = B64 4728779608739020 (- 50)"
    "totalTime64 3 (B64 5854679515581645 (- 52)) = B64 8782019273372468 (- 51)"
    by (simp_all add: b64_ev)
  have c: "currentCycle64 (B64 6305039478318694 (- 52)) (B64 4728779608739020 (- 50)) = B64 2 0"
    by (simp add: b64_ev)
  have i: "inCycle64 3 (B64 4728779608739020 (- 50), B64 2 0)"
    "\<not> inCycle64 3 (B64 8782019273372467 (- 51), B64 3 0)"
    "b64_less (B64 8782019273372467 (- 51)) (B64 8782019273372468 (- 51))"
    by (simp_all add: inCycle64_def)
  show ?thesis
    unfolding decimal64_values t
    using samples64_interval_14 samples64_interval_13 c i by simp
qed

section \<open>An infusion time of zero\<close>

lemma NaN_absorbs [simp]:
  "x + NaN = NaN" "NaN + x = NaN" "x * NaN = NaN" "NaN * x = NaN"
  by (cases x; simp)+

lemma validateDrugParams_empty:
  "validateDrugParams d = [] \<longleftrightarrow>
     0 < dosingInterval d \<and> 0 \<le> infusionTime d \<and> infusionTime d \<le> dosingInterval d \<and>
     0 < halfLife d \<and> 0 < maxConcentration d"
  by (simp add: validateDrugParams_violations violations_empty)

lemma cycle_start_quotient:
  assumes "0 < D"
  shows "Math_floor (Fin (real c * D) / Fin D) * Fin D = Fin (real c * D)"
    and "js_rem (Fin (real c * D)) (Fin D) = Fin 0"
  using assms by (simp_all add: js_trunc_def)

text \<open>
  C10. A regimen with \<open>infusionTime = 0\<close> passes validation. At every cycle start
  \<open>t = c \<cdot> dosingInterval\<close> the time in the cycle is 0, so the infusion branch is taken and
  \<open>(t - cycleStart) / infusionTime\<close> is \<^verbatim>\<open>0/0\<close>: the quotient and the concentration are
  \<^verbatim>\<open>NaN\<close>. In a run (inhibitor valid, \<open>timeStep > 0\<close>) the first sample of the drug
  is such a value.
\<close>

theorem zero_infusionTime_NaN:
  assumes "0 < dosingInterval d" and "infusionTime d = 0" and "0 < halfLife d"
    and "0 < maxConcentration d"
  shows "validateDrugParams d = [] \<and>
         (\<forall>c::nat.
            js_rem (Fin (real c * dosingInterval d)) (Fin (dosingInterval d))
              \<le> Fin (infusionTime d) \<and>
            (Fin (real c * dosingInterval d) -
               Math_floor (Fin (real c * dosingInterval d) / Fin (dosingInterval d))
                 * Fin (dosingInterval d)) / Fin (infusionTime d) = NaN \<and>
            concentrationAt d (real c * dosingInterval d) = NaN) \<and>
         (violations ip = [] \<and> 0 < timeStep sp \<longrightarrow>
            (\<exists>st. finalState d ip pd sp = Some st \<and> drugConcentrations st \<noteq> [] \<and>
                  drugConcentrations st ! 0 = NaN))"
proof (intro conjI allI impI)
  show "validateDrugParams d = []"
    using assms by (simp add: validateDrugParams_empty)
next
  fix c :: nat
  show "js_rem (Fin (real c * dosingInterval d)) (Fin (dosingInterval d)) \<le> Fin (infusionTime d)"
    using assms by (simp add: cycle_start_quotient del: js_rem.simps)
  show "(Fin (real c * dosingInterval d) -
               Math_floor (Fin (real c * dosingInterval d) / Fin (dosingInterval d))
                 * Fin (dosingInterval d)) / Fin (infusionTime d) = NaN"
    using assms by (simp add: inf_of_sign_def)
  then show "concentrationAt d (real c * dosingInterval d) = NaN"
    using assms
    by (simp add: concentrationAt_def Let_def concentrationDuringInfusion_def js_trunc_def
        inf_of_sign_def)
next
  assume v: "violations ip = [] \<and> 0 < timeStep sp"
  let ?ts = "sampleTimes d sp"
  have fin: "finalState d ip pd sp = Some (stateOf d ip pd sp ?ts)"
    using v assms(1) by (intro finalState_closed) auto
  have ne: "?ts \<noteq> []"
    using v assms(1) by (intro sampleTimes_nonempty) auto
  then have len: "0 < length ?ts" by simp
  have t0: "?ts ! 0 = 0"
    using sampleTimes_nth [OF len] by simp
  have "concentrationAt d (real (0::nat) * dosingInterval d) = NaN"
    using assms
    by (simp add: concentrationAt_def Let_def concentrationDuringInfusion_def js_trunc_def
        inf_of_sign_def)
  then have "concentrationAt d 0 = NaN" by simp
  then have "drugConcentrations (stateOf d ip pd sp ?ts) ! 0 = NaN"
    using len t0 by (simp add: stateOf_def)
  moreover have "drugConcentrations (stateOf d ip pd sp ?ts) \<noteq> []"
    using ne by (simp add: stateOf_def)
  ultimately show "\<exists>st. finalState d ip pd sp = Some st \<and> drugConcentrations st \<noteq> [] \<and>
                  drugConcentrations st ! 0 = NaN"
    using fin by blast
qed

theorem zero_infusionTime_NaN_witness:
  "validateDrugParams (defaultDrugParams\<lparr>infusionTime := 0\<rparr>) = [] \<and>
   concentrationAt (defaultDrugParams\<lparr>infusionTime := 0\<rparr>) 24 = NaN \<and>
   (\<exists>st. finalState (defaultDrugParams\<lparr>infusionTime := 0\<rparr>) defaultInhibitorParams
            defaultPdParams defaultSimParams = Some st \<and>
         drugConcentrations st ! 0 = NaN)"
proof -
  let ?d = "defaultDrugParams\<lparr>infusionTime := 0\<rparr>"
  have a: "0 < dosingInterval ?d" "infusionTime ?d = 0" "0 < halfLife ?d"
    "0 < maxConcentration ?d"
    by (simp_all add: defaultDrugParams_def)
  have b: "violations defaultInhibitorParams = [] \<and> 0 < timeStep defaultSimParams"
    by (simp add: violations_def regimenRules_def defaultInhibitorParams_def
        defaultSimParams_def)
  have D: "dosingInterval ?d = 24" by (simp add: defaultDrugParams_def)
  from zero_infusionTime_NaN [OF a, of defaultInhibitorParams defaultSimParams defaultPdParams]
  have 1: "validateDrugParams ?d = []"
    and 2: "\<forall>c::nat. concentrationAt ?d (real c * dosingInterval ?d) = NaN"
    and 3: "violations defaultInhibitorParams = [] \<and> 0 < timeStep defaultSimParams \<longrightarrow>
            (\<exists>st. finalState ?d defaultInhibitorParams defaultPdParams defaultSimParams = Some st \<and>
                  drugConcentrations st \<noteq> [] \<and> drugConcentrations st ! 0 = NaN)"
    by blast+
  from 2 have "concentrationAt ?d (real (1::nat) * dosingInterval ?d) = NaN" by blast
  then have 4: "concentrationAt ?d 24 = NaN" by (simp add: D)
  from 3 b have "\<exists>st. finalState ?d defaultInhibitorParams defaultPdParams defaultSimParams = Some st \<and>
                  drugConcentrations st ! 0 = NaN" by blast
  with 1 4 show ?thesis by blast
qed

section \<open>What a run commits\<close>

lemma runSimulation_commits:
  assumes "violations (drugParams s) = []" and "violations (inhibitorParams s) = []"
    and "0 < timeStep (simParams s)" and "isMounted s"
  shows "runSimulation runId s =
     s\<lparr>drugValidationErrors := [], inhibitorValidationErrors := [],
       latestRunId := runId,
       results := Some (resultsOf (drugParams s) (inhibitorParams s)
                    (stateOf (drugParams s) (inhibitorParams s) (pdParams s) (simParams s)
                       (sampleTimes (drugParams s) (simParams s)))),
       chartData := chartDataOf
                    (stateOf (drugParams s) (inhibitorParams s) (pdParams s) (simParams s)
                       (sampleTimes (drugParams s) (simParams s))),
       cycleResults := cycleResultsOf
                    (stateOf (drugParams s) (inhibitorParams s) (pdParams s) (simParams s)
                       (sampleTimes (drugParams s) (simParams s))),
       isSimulating := False\<rparr>"
proof -
  have D: "0 < dosingInterval (drugParams s)"
    using assms(1) by (simp add: violations_empty)
  have fin: "finalState (drugParams s) (inhibitorParams s) (pdParams s) (simParams s) =
     Some (stateOf (drugParams s) (inhibitorParams s) (pdParams s) (simParams s)
             (sampleTimes (drugParams s) (simParams s)))"
    using assms(3) D by (rule finalState_closed)
  show ?thesis
    using assms
    by (simp add: runSimulation_def Let_def validateDrugParams_violations
        validateInhibitorParams_violations fin not_le)
qed

text \<open>
  C1, as amended. A run that passes validation (on a mounted component) commits the
  summary values rounded by \<^verbatim>\<open>toFixed\<close>: the two AUCs and the two minimum
  concentrations to 2 decimal places, the two exposure ratios to 3, the percent time above
  MIC to 1 and the decay constants to 4. The committed time series holds the times rounded
  to 2 decimal places and the three concentrations rounded to 3. Only the per-cycle metrics
  are committed as computed.
\<close>

theorem runSimulation_commits_rounded:
  assumes "violations (drugParams s) = []" and "violations (inhibitorParams s) = []"
    and "0 < timeStep (simParams s)" and "isMounted s"
  shows "\<exists>st. finalState (drugParams s) (inhibitorParams s) (pdParams s) (simParams s) = Some st \<and>
     results (runSimulation runId s) =
       Some \<lparr>drugAUC = toFixed 2 (calculateAUC (timePoints st) (drugConcentrations st)),
             inhibitorAUC = toFixed 2 (calculateAUC (timePoints st) (inhibitorConcentrations st)),
             exposureRatio =
               toFixed 3 (calculateAUC (timePoints st) (drugConcentrations st) /
                          calculateAUC (timePoints st) (inhibitorConcentrations st)),
             inverseExposureRatio =
               toFixed 3 (calculateAUC (timePoints st) (inhibitorConcentrations st) /
                          calculateAUC (timePoints st) (drugConcentrations st)),
             percentTOverMIC = toFixed 1 (percentAbove (tOverMIC st)),
             drugMinConc = toFixed 2 (minConcOf (drugParams s)),
             inhibitorMinConc = toFixed 2 (minConcOf (inhibitorParams s)),
             kDrug = toFixed 4 (decayConstantOf (drugParams s)),
             kInhibitor = toFixed 4 (decayConstantOf (inhibitorParams s))\<rparr> \<and>
     length (chartData (runSimulation runId s)) = length (timePoints st) \<and>
     (\<forall>i<length (timePoints st).
        chartData (runSimulation runId s) ! i =
          \<lparr>time = toFixed 2 (timePoints st ! i),
           drug = toFixed 3 (drugConcentrations st ! i),
           inhibitor = toFixed 3 (inhibitorConcentrations st ! i),
           mic = toFixed 3 (micValues st ! i)\<rparr>) \<and>
     cycleResults (runSimulation runId s) = map cycleMetrics (cycleData st)"
proof -
  let ?st = "stateOf (drugParams s) (inhibitorParams s) (pdParams s) (simParams s)
               (sampleTimes (drugParams s) (simParams s))"
  have D: "0 < dosingInterval (drugParams s)"
    using assms(1) by (simp add: violations_empty)
  have fin: "finalState (drugParams s) (inhibitorParams s) (pdParams s) (simParams s) = Some ?st"
    using assms(3) D by (rule finalState_closed)
  note c = runSimulation_commits [OF assms, of runId]
  have r: "results (runSimulation runId s) =
             Some (resultsOf (drugParams s) (inhibitorParams s) ?st)"
    by (simp add: c)
  have ch: "chartData (runSimulation runId s) = chartDataOf ?st"
    by (simp add: c)
  have cy: "cycleResults (runSimulation runId s) = cycleResultsOf ?st"
    by (simp add: c)
  have lens: "length (drugConcentrations ?st) = length (timePoints ?st)"
    "length (inhibitorConcentrations ?st) = length (timePoints ?st)"
    "length (micValues ?st) = length (timePoints ?st)"
    by simp_all
  have "chartDataOf ?st ! i =
          \<lparr>time = toFixed 2 (timePoints ?st ! i),
           drug = toFixed 3 (drugConcentrations ?st ! i),
           inhibitor = toFixed 3 (inhibitorConcentrations ?st ! i),
           mic = toFixed 3 (micValues ?st ! i)\<rparr>" if "i < length (timePoints ?st)" for i
    using that lens unfolding chartDataOf_def js_at_def by simp
  then show ?thesis
    using fin
    unfolding r ch cy
    by (intro exI [of _ ?st]) (simp add: resultsOf_def Let_def chartDataOf_def cycleResultsOf_def)
qed

theorem runSimulation_commits_rounded_witness:
  "violations (drugParams initialComponent) = [] \<and>
   violations (inhibitorParams initialComponent) = [] \<and>
   0 < timeStep (simParams initialComponent) \<and> isMounted initialComponent \<and>
   (\<exists>st. finalState defaultDrugParams defaultInhibitorParams defaultPdParams defaultSimParams
           = Some st \<and>
         length (chartData (runSimulation 1 initialComponent)) = length (timePoints st) \<and>
         cycleResults (runSimulation 1 initialComponent) = map cycleMetrics (cycleData st))"
proof -
  have a: "violations (drugParams initialComponent) = []"
    by (simp add: violations_def regimenRules_def initialComponent_def defaultDrugParams_def)
  have b: "violations (inhibitorParams initialComponent) = []"
    by (simp add: violations_def regimenRules_def initialComponent_def
        defaultInhibitorParams_def)
  have c: "0 < timeStep (simParams initialComponent)"
    by (simp add: initialComponent_def defaultSimParams_def)
  have d: "isMounted initialComponent"
    by (simp add: initialComponent_def)
  have p: "drugParams initialComponent = defaultDrugParams"
    "inhibitorParams initialComponent = defaultInhibitorParams"
    "pdParams initialComponent = defaultPdParams"
    "simParams initialComponent = defaultSimParams"
    by (simp_all add: initialComponent_def)
  from runSimulation_commits_rounded [OF a b c d, of 1]
  obtain st where
    "finalState (drugParams initialComponent) (inhibitorParams initialComponent)
       (pdParams initialComponent) (simParams initialComponent) = Some st"
    "length (chartData (runSimulation 1 initialComponent)) = length (timePoints st)"
    "cycleResults (runSimulation 1 initialComponent) = map cycleMetrics (cycleData st)"
    by blast
  then have "\<exists>st. finalState defaultDrugParams defaultInhibitorParams defaultPdParams
                    defaultSimParams = Some st \<and>
         length (chartData (runSimulation 1 initialComponent)) = length (timePoints st) \<and>
         cycleResults (runSimulation 1 initialComponent) = map cycleMetrics (cycleData st)"
    unfolding p by blast
  with a b c d show ?thesis by blast
qed

text \<open>
  The claim that no rounding is applied fails: with the default parameters and a time step
  of 0.125 h the second sample is taken at 0.125 h and committed with the time 0.13.
\<close>

lemma toFixed_eighth: "toFixed 2 (Fin 0.125) = Fin 0.13"
proof -
  have "\<lfloor>(0.125::real) * 10\<^sup>2 + 1 / 2\<rfloor> = 13" by simp
  then show ?thesis by (simp add: toFixed_def)
qed

theorem rounding_counterexample:
  "violations (drugParams (initialComponent\<lparr>simParams := defaultSimParams\<lparr>timeStep := 0.125\<rparr>\<rparr>)) = [] \<and>
   violations (inhibitorParams (initialComponent\<lparr>simParams := defaultSimParams\<lparr>timeStep := 0.125\<rparr>\<rparr>)) = [] \<and>
   0 < timeStep (simParams (initialComponent\<lparr>simParams := defaultSimParams\<lparr>timeStep := 0.125\<rparr>\<rparr>)) \<and>
   finalState defaultDrugParams defaultInhibitorParams defaultPdParams
       (defaultSimParams\<lparr>timeStep := 0.125\<rparr>) =
     Some (stateOf defaultDrugParams defaultInhibitorParams defaultPdParams
             (defaultSimParams\<lparr>timeStep := 0.125\<rparr>)
             (sampleTimes defaultDrugParams (defaultSimParams\<lparr>timeStep := 0.125\<rparr>))) \<and>
   timePoints (stateOf defaultDrugParams defaultInhibitorParams defaultPdParams
             (defaultSimParams\<lparr>timeStep := 0.125\<rparr>)
             (sampleTimes defaultDrugParams (defaultSimParams\<lparr>timeStep := 0.125\<rparr>))) ! 1
     = Fin 0.125 \<and>
   time (chartData (runSimulation 1
           (initialComponent\<lparr>simParams := defaultSimParams\<lparr>timeStep := 0.125\<rparr>\<rparr>)) ! 1)
     = Fin 0.13"
proof -
  let ?sp = "defaultSimParams\<lparr>timeStep := 0.125\<rparr>"
  let ?s = "initialComponent\<lparr>simParams := ?sp\<rparr>"
  let ?ts = "sampleTimes defaultDrugParams ?sp"
  let ?st = "stateOf defaultDrugParams defaultInhibitorParams defaultPdParams ?sp ?ts"
  have p: "drugParams ?s = defaultDrugParams" "inhibitorParams ?s = defaultInhibitorParams"
    "pdParams ?s = defaultPdParams" "simParams ?s = ?sp"
    by (simp_all add: initialComponent_def)
  have a: "violations (drugParams ?s) = []"
    by (simp add: violations_def regimenRules_def initialComponent_def defaultDrugParams_def)
  have b: "violations (inhibitorParams ?s) = []"
    by (simp add: violations_def regimenRules_def initialComponent_def
        defaultInhibitorParams_def)
  have c: "0 < timeStep (simParams ?s)"
    by (simp add: initialComponent_def defaultSimParams_def)
  have d: "isMounted ?s"
    by (simp add: initialComponent_def)
  have D: "0 < dosingInterval defaultDrugParams"
    by (simp add: defaultDrugParams_def)
  have c': "0 < timeStep ?sp" using c by (simp add: p)
  have fin: "finalState defaultDrugParams defaultInhibitorParams defaultPdParams ?sp = Some ?st"
    using c' D by (rule finalState_closed)
  have len: "length ?ts = 577"
    by (simp add: sampleTimes_length defaultSimParams_def defaultDrugParams_def)
  then have one: "1 < length ?ts" by simp
  have t1: "?ts ! 1 = 0.125"
    using sampleTimes_nth [OF one] by (simp add: defaultSimParams_def)
  have tp: "timePoints ?st ! 1 = Fin 0.125"
    using one t1 by simp
  have q: "drugParams initialComponent = defaultDrugParams"
    "inhibitorParams initialComponent = defaultInhibitorParams"
    "pdParams initialComponent = defaultPdParams"
    by (simp_all add: initialComponent_def)
  have ch: "chartData (runSimulation 1 ?s) = chartDataOf ?st"
    using runSimulation_commits [OF a b c d, of 1] by (simp add: q)
  have "time (chartDataOf ?st ! 1) = toFixed 2 (js_at (timePoints ?st) 1)"
    using one by (simp add: chartDataOf_def)
  also have "\<dots> = toFixed 2 (Fin 0.125)"
  proof -
    have "1 < length (timePoints ?st)" using one by simp
    then have "js_at (timePoints ?st) 1 = timePoints ?st ! 1"
      unfolding js_at_def by (simp only: if_True)
    then show ?thesis by (simp only: tp)
  qed
  finally have "time (chartDataOf ?st ! 1) = Fin 0.13"
    by (simp only: toFixed_eighth)
  then have "time (chartData (runSimulation 1 ?s) ! 1) = Fin 0.13"
    by (simp only: ch)
  with a b c fin tp show ?thesis by blast
qed

section \<open>The optimizer's rules\<close>

lemma safetyChecks_toxicity:
  "peakConc > Fin (maxSafeConc tg) \<Longrightarrow>
   decRisk (safetyChecks peakConc troughConc tg dec) = ''High - Risk of toxicity'' \<and>
   decConfidence (safetyChecks peakConc troughConc tg dec) = Fin 0.5 \<and>
   decInterval (safetyChecks peakConc troughConc tg dec) = decInterval dec \<and>
   decDose (safetyChecks peakConc troughConc tg dec) = decDose dec"
  by (simp add: safetyChecks_def Let_def)

lemma round_half: "Math_round (Fin 0.5 * Fin 100) / Fin 100 = Fin 0.5"
  by simp

text \<open>
  C7. The two safety checks run after the ratio rules whatever these decided, the trough
  check first and the peak check last. When the trough is below \<open>minEffectiveConc\<close> and
  the peak above \<open>maxSafeConc\<close>, the recommendation returned has the risk
  "High - Risk of toxicity" and the confidence 0.5.
\<close>

theorem toxicity_check_wins:
  assumes "Math_min_of (map drug cd) < Fin (minEffectiveConc tg)"
    and "Math_max_of (map drug cd) > Fin (maxSafeConc tg)"
  shows "safetyChecks (Math_max_of (map drug cd)) (Math_min_of (map drug cd)) tg dec =
           dec\<lparr>decRisk := ''High - Risk of toxicity'', decConfidence := Fin 0.5\<rparr> \<and>
         (\<exists>rec. calculateOptimization dp tg (Some r) cd = Some rec \<and>
                riskAssessment rec = ''High - Risk of toxicity'' \<and>
                confidence rec = Fin 0.5)"
proof
  show "safetyChecks (Math_max_of (map drug cd)) (Math_min_of (map drug cd)) tg dec =
           dec\<lparr>decRisk := ''High - Risk of toxicity'', decConfidence := Fin 0.5\<rparr>"
    using assms(1,2) by (simp add: safetyChecks_def Let_def)
next
  let ?peak = "Math_max_of (map drug cd)" and ?trough = "Math_min_of (map drug cd)"
  let ?dec = "safetyChecks ?peak ?trough tg
                (ratioRules (Fin (dosingInterval dp)) (Fin (maxConcentration dp))
                   (percentTOverMIC r) ?peak ?trough tg)"
  have s: "decRisk ?dec = ''High - Risk of toxicity''" "decConfidence ?dec = Fin 0.5"
    using safetyChecks_toxicity [OF assms(2)] by blast+
  have "cd \<noteq> []"
  proof
    assume "cd = []"
    with assms(1) show False by (simp add: Math_min_of_def)
  qed
  then have len: "length cd \<noteq> 0" by simp
  show "\<exists>rec. calculateOptimization dp tg (Some r) cd = Some rec \<and>
                riskAssessment rec = ''High - Risk of toxicity'' \<and>
                confidence rec = Fin 0.5"
    using len s round_half
    by (simp add: calculateOptimization_def Let_def)
qed

theorem toxicity_check_wins_witness:
  "Math_min_of (map drug
       [\<lparr>time = Fin 0, drug = Fin 1, inhibitor = Fin 0, mic = Fin 4\<rparr>,
        \<lparr>time = Fin 1, drug = Fin 100, inhibitor = Fin 0, mic = Fin 4\<rparr>])
     < Fin (minEffectiveConc defaultTarget) \<and>
   Math_max_of (map drug
       [\<lparr>time = Fin 0, drug = Fin 1, inhibitor = Fin 0, mic = Fin 4\<rparr>,
        \<lparr>time = Fin 1, drug = Fin 100, inhibitor = Fin 0, mic = Fin 4\<rparr>])
     > Fin (maxSafeConc defaultTarget) \<and>
   (\<exists>rec. calculateOptimization defaultDrugParams defaultTarget
            (Some \<lparr>drugAUC = Fin 0, inhibitorAUC = Fin 0, exposureRatio = Fin 0,
                   inverseExposureRatio = Fin 0, percentTOverMIC = Fin 50,
                   drugMinConc = Fin 0, inhibitorMinConc = Fin 0, kDrug = Fin 0,
                   kInhibitor = Fin 0\<rparr>)
            [\<lparr>time = Fin 0, drug = Fin 1, inhibitor = Fin 0, mic = Fin 4\<rparr>,
             \<lparr>time = Fin 1, drug = Fin 100, inhibitor = Fin 0, mic = Fin 4\<rparr>] = Some rec \<and>
          riskAssessment rec = ''High - Risk of toxicity'' \<and> confidence rec = Fin 0.5)"
proof -
  let ?cd = "[\<lparr>time = Fin 0, drug = Fin 1, inhibitor = Fin 0, mic = Fin 4\<rparr>,
              \<lparr>time = Fin 1, drug = Fin 100, inhibitor = Fin 0, mic = Fin 4\<rparr>]"
  have a: "Math_min_of (map drug ?cd) < Fin (minEffectiveConc defaultTarget)"
    by (simp add: Math_min_of_def Math_min_def defaultTarget_def)
  have b: "Math_max_of (map drug ?cd) > Fin (maxSafeConc defaultTarget)"
    by (simp add: Math_max_of_def Math_max_def defaultTarget_def)
  from toxicity_check_wins [OF a b] a b show ?thesis
    by blast
qed

lemma ratioRules_undertreating:
  assumes "currentTOverMIC / Fin (targetTOverMIC tg) < Fin 0.8"
    and "peakConc < Fin (maxSafeConc tg) * Fin 0.8"
  shows "ratioRules currentInterval currentDose currentTOverMIC peakConc troughConc tg =
           \<lparr>decInterval = currentInterval,
            decDose = Math_min (currentDose * Fin 1.3) (Fin (maxSafeConc tg) * Fin 0.9),
            decConfidence = Fin 0.85, decRisk = ''Low''\<rparr>"
  using assms by (simp add: ratioRules_def Let_def)

lemma round_confidence:
  "Math_round (Fin 0.85 * Fin 100) / Fin 100 = Fin 0.85"
  "Math_round (Fin 0.6 * Fin 100) / Fin 100 = Fin 0.6"
  by simp_all

lemma calculateOptimization_undertreating:
  assumes "percentTOverMIC r / Fin (targetTOverMIC tg) < Fin 0.8"
    and "Math_max_of (map drug cd) < Fin (maxSafeConc tg) * Fin 0.8"
    and "cd \<noteq> []"
  shows "\<exists>rec. calculateOptimization dp tg (Some r) cd = Some rec \<and>
           recommendedDose rec =
             Math_round (Math_min (Fin (maxConcentration dp) * Fin 1.3)
                           (Fin (maxSafeConc tg) * Fin 0.9) * Fin 10) / Fin 10 \<and>
           recommendedInterval rec = Math_round (Fin (dosingInterval dp) * Fin 10) / Fin 10 \<and>
           (\<not> Math_min_of (map drug cd) < Fin (minEffectiveConc tg) \<and>
            \<not> Math_max_of (map drug cd) > Fin (maxSafeConc tg) \<longrightarrow>
              riskAssessment rec = ''Low'' \<and> confidence rec = Fin 0.85) \<and>
           (Math_min_of (map drug cd) < Fin (minEffectiveConc tg) \<and>
            \<not> Math_max_of (map drug cd) > Fin (maxSafeConc tg) \<longrightarrow>
              riskAssessment rec = ''High - Risk of subtherapeutic levels'' \<and>
              confidence rec = Fin 0.6)"
proof -
  let ?peak = "Math_max_of (map drug cd)" and ?trough = "Math_min_of (map drug cd)"
  let ?rules = "ratioRules (Fin (dosingInterval dp)) (Fin (maxConcentration dp))
                  (percentTOverMIC r) ?peak ?trough tg"
  let ?dec = "safetyChecks ?peak ?trough tg ?rules"
  have rules: "?rules =
      \<lparr>decInterval = Fin (dosingInterval dp),
       decDose = Math_min (Fin (maxConcentration dp) * Fin 1.3) (Fin (maxSafeConc tg) * Fin 0.9),
       decConfidence = Fin 0.85, decRisk = ''Low''\<rparr>"
    using assms(1,2) by (rule ratioRules_undertreating)
  have keep: "decInterval ?dec = Fin (dosingInterval dp)"
    "decDose ?dec = Math_min (Fin (maxConcentration dp) * Fin 1.3) (Fin (maxSafeConc tg) * Fin 0.9)"
    unfolding rules by (simp_all add: safetyChecks_def Let_def)
  have low: "decRisk ?dec = ''Low'' \<and> decConfidence ?dec = Fin 0.85"
    if "\<not> ?trough < Fin (minEffectiveConc tg)" "\<not> ?peak > Fin (maxSafeConc tg)"
    unfolding rules using that by (simp add: safetyChecks_def Let_def)
  have sub: "decRisk ?dec = ''High - Risk of subtherapeutic levels'' \<and>
             decConfidence ?dec = Fin 0.6"
    if "?trough < Fin (minEffectiveConc tg)" "\<not> ?peak > Fin (maxSafeConc tg)"
    unfolding rules using that by (simp add: safetyChecks_def Let_def)
  have len: "length cd \<noteq> 0" using assms(3) by simp
  have r1: "\<not> ?trough < Fin (minEffectiveConc tg) \<and> \<not> ?peak > Fin (maxSafeConc tg) \<longrightarrow>
      decRisk ?dec = ''Low'' \<and> Math_round (decConfidence ?dec * Fin 100) / Fin 100 = Fin 0.85"
    using low round_confidence(1) by simp
  have r2: "?trough < Fin (minEffectiveConc tg) \<and> \<not> ?peak > Fin (maxSafeConc tg) \<longrightarrow>
      decRisk ?dec = ''High - Risk of subtherapeutic levels'' \<and>
      Math_round (decConfidence ?dec * Fin 100) / Fin 100 = Fin 0.6"
    using sub round_confidence(2) by simp
  show ?thesis
    using len keep r1 r2 by (simp add: calculateOptimization_def Let_def)
qed

text \<open>
  C6, as amended. When the ratio of the current to the target T>MIC is below 0.8 and the
  peak of the chart is below \<open>0.8 \<cdot> maxSafeConc\<close>, the recommendation that
  \<^const>\<open>calculateOptimization\<close> returns has the dose \<open>min(currentDose \<cdot> 1.3, 0.9 \<cdot> maxSafeConc)\<close>
  rounded to one decimal place with \<^verbatim>\<open>Math.round(x * 10) / 10\<close>, and the current interval
  rounded the same way. Its risk is "Low" and its confidence 0.85 when neither safety check
  fires; when the trough is below \<open>minEffectiveConc\<close> and the peak is not above
  \<open>maxSafeConc\<close>, they are "High - Risk of subtherapeutic levels" and 0.6.
\<close>

theorem optimizer_undertreating:
  assumes "percentTOverMIC r / Fin (targetTOverMIC tg) < Fin 0.8"
    and "Math_max_of (map drug cd) < Fin (maxSafeConc tg) * Fin 0.8"
    and "cd \<noteq> []"
  shows "\<exists>rec. calculateOptimization dp tg (Some r) cd = Some rec \<and>
           recommendedDose rec =
             Math_round (Math_min (Fin (maxConcentration dp) * Fin 1.3)
                           (Fin (maxSafeConc tg) * Fin 0.9) * Fin 10) / Fin 10 \<and>
           recommendedInterval rec = Math_round (Fin (dosingInterval dp) * Fin 10) / Fin 10 \<and>
           (\<not> Math_min_of (map drug cd) < Fin (minEffectiveConc tg) \<and>
            \<not> Math_max_of (map drug cd) > Fin (maxSafeConc tg) \<longrightarrow>
              riskAssessment rec = ''Low'' \<and> confidence rec = Fin 0.85) \<and>
           (Math_min_of (map drug cd) < Fin (minEffectiveConc tg) \<and>
            \<not> Math_max_of (map drug cd) > Fin (maxSafeConc tg) \<longrightarrow>
              riskAssessment rec = ''High - Risk of subtherapeutic levels'' \<and>
              confidence rec = Fin 0.6)"
  using assms by (rule calculateOptimization_undertreating)

theorem optimizer_undertreating_witness:
  "Fin 50 / Fin (targetTOverMIC defaultTarget) < Fin 0.8 \<and>
   Math_max_of (map drug
       [\<lparr>time = Fin 0, drug = Fin 3, inhibitor = Fin 0, mic = Fin 4\<rparr>,
        \<lparr>time = Fin 1, drug = Fin 30, inhibitor = Fin 0, mic = Fin 4\<rparr>])
     < Fin (maxSafeConc defaultTarget) * Fin 0.8 \<and>
   (\<exists>rec. calculateOptimization defaultDrugParams defaultTarget
            (Some \<lparr>drugAUC = Fin 0, inhibitorAUC = Fin 0, exposureRatio = Fin 0,
                   inverseExposureRatio = Fin 0, percentTOverMIC = Fin 50,
                   drugMinConc = Fin 0, inhibitorMinConc = Fin 0, kDrug = Fin 0,
                   kInhibitor = Fin 0\<rparr>)
            [\<lparr>time = Fin 0, drug = Fin 3, inhibitor = Fin 0, mic = Fin 4\<rparr>,
             \<lparr>time = Fin 1, drug = Fin 30, inhibitor = Fin 0, mic = Fin 4\<rparr>] = Some rec \<and>
          recommendedDose rec = Fin 45 \<and> recommendedInterval rec = Fin 24 \<and>
          riskAssessment rec = ''Low'' \<and> confidence rec = Fin 0.85) \<and>
   Math_min_of (map drug
       [\<lparr>time = Fin 0, drug = Fin 1, inhibitor = Fin 0, mic = Fin 4\<rparr>,
        \<lparr>time = Fin 1, drug = Fin 30, inhibitor = Fin 0, mic = Fin 4\<rparr>])
     < Fin (minEffectiveConc defaultTarget) \<and>
   (\<exists>rec. calculateOptimization defaultDrugParams defaultTarget
            (Some \<lparr>drugAUC = Fin 0, inhibitorAUC = Fin 0, exposureRatio = Fin 0,
                   inverseExposureRatio = Fin 0, percentTOverMIC = Fin 50,
                   drugMinConc = Fin 0, inhibitorMinConc = Fin 0, kDrug = Fin 0,
                   kInhibitor = Fin 0\<rparr>)
            [\<lparr>time = Fin 0, drug = Fin 1, inhibitor = Fin 0, mic = Fin 4\<rparr>,
             \<lparr>time = Fin 1, drug = Fin 30, inhibitor = Fin 0, mic = Fin 4\<rparr>] = Some rec \<and>
          recommendedDose rec = Fin 45 \<and>
          riskAssessment rec = ''High - Risk of subtherapeutic levels'' \<and>
          confidence rec = Fin 0.6)"
proof -
  let ?r = "\<lparr>drugAUC = Fin 0, inhibitorAUC = Fin 0, exposureRatio = Fin 0,
              inverseExposureRatio = Fin 0, percentTOverMIC = Fin 50,
              drugMinConc = Fin 0, inhibitorMinConc = Fin 0, kDrug = Fin 0,
              kInhibitor = Fin 0\<rparr>"
  let ?cd = "[\<lparr>time = Fin 0, drug = Fin 3, inhibitor = Fin 0, mic = Fin 4\<rparr>,
              \<lparr>time = Fin 1, drug = Fin 30, inhibitor = Fin 0, mic = Fin 4\<rparr>]"
  let ?cd' = "[\<lparr>time = Fin 0, drug = Fin 1, inhibitor = Fin 0, mic = Fin 4\<rparr>,
               \<lparr>time = Fin 1, drug = Fin 30, inhibitor = Fin 0, mic = Fin 4\<rparr>]"
  have ratio: "percentTOverMIC ?r / Fin (targetTOverMIC defaultTarget) < Fin 0.8"
    by (simp add: defaultTarget_def)
  have ratio': "Fin 50 / Fin (targetTOverMIC defaultTarget) < Fin 0.8"
    by (simp add: defaultTarget_def)
  have peak: "Math_max_of (map drug ?cd) < Fin (maxSafeConc defaultTarget) * Fin 0.8"
    by (simp add: Math_max_of_def Math_max_def defaultTarget_def)
  have peak': "Math_max_of (map drug ?cd') < Fin (maxSafeConc defaultTarget) * Fin 0.8"
    by (simp add: Math_max_of_def Math_max_def defaultTarget_def)
  have safe: "\<not> Math_min_of (map drug ?cd) < Fin (minEffectiveConc defaultTarget)"
    "\<not> Math_max_of (map drug ?cd) > Fin (maxSafeConc defaultTarget)"
    by (simp_all add: Math_max_of_def Math_max_def Math_min_of_def Math_min_def defaultTarget_def)
  have low: "Math_min_of (map drug ?cd') < Fin (minEffectiveConc defaultTarget)"
    "\<not> Math_max_of (map drug ?cd') > Fin (maxSafeConc defaultTarget)"
    by (simp_all add: Math_max_of_def Math_max_def Math_min_of_def Math_min_def defaultTarget_def)
  have dose: "Math_round (Math_min (Fin (maxConcentration defaultDrugParams) * Fin 1.3)
                (Fin (maxSafeConc defaultTarget) * Fin 0.9) * Fin 10) / Fin 10 = Fin 45"
    by (simp add: Math_min_def defaultDrugParams_def defaultTarget_def)
  have interval: "Math_round (Fin (dosingInterval defaultDrugParams) * Fin 10) / Fin 10 = Fin 24"
    by (simp add: defaultDrugParams_def)
  have one: "\<exists>rec. calculateOptimization defaultDrugParams defaultTarget (Some ?r) ?cd = Some rec \<and>
          recommendedDose rec = Fin 45 \<and> recommendedInterval rec = Fin 24 \<and>
          riskAssessment rec = ''Low'' \<and> confidence rec = Fin 0.85"
    using optimizer_undertreating [OF ratio peak, of defaultDrugParams] safe
    unfolding dose interval by blast
  have two: "\<exists>rec. calculateOptimization defaultDrugParams defaultTarget (Some ?r) ?cd' = Some rec \<and>
          recommendedDose rec = Fin 45 \<and>
          riskAssessment rec = ''High - Risk of subtherapeutic levels'' \<and>
          confidence rec = Fin 0.6"
    using optimizer_undertreating [OF ratio peak', of defaultDrugParams] low
    unfolding dose interval by blast
  show ?thesis
    using ratio' peak one low(1) two by blast
qed

text \<open>
  The claim gives the dose without the rounding. With the default regimen (dose 100), a
  current T>MIC of 50 against the target 80, a chart with the drug values 3 and 30 and
  \<open>maxSafeConc = 50.3\<close>, the ratio is 0.625 and the peak is below \<open>0.8 \<cdot> 50.3\<close>;
  \<open>min(100 \<cdot> 1.3, 0.9 \<cdot> 50.3)\<close> is 45.27 and the recommended dose is 45.3.
\<close>

theorem optimizer_dose_counterexample:
  "Fin 50 / Fin 80 < Fin 0.8 \<and>
   Math_max_of (map drug
       [\<lparr>time = Fin 0, drug = Fin 3, inhibitor = Fin 0, mic = Fin 4\<rparr>,
        \<lparr>time = Fin 1, drug = Fin 30, inhibitor = Fin 0, mic = Fin 4\<rparr>])
     < Fin 50.3 * Fin 0.8 \<and>
   Math_min (Fin 100 * Fin 1.3) (Fin 50.3 * Fin 0.9) = Fin 45.27 \<and>
   map_option recommendedDose
     (calculateOptimization
        \<lparr>dosingInterval = 24, infusionTime = 1, halfLife = 6, maxConcentration = 100\<rparr>
        \<lparr>minEffectiveConc = 2, maxSafeConc = 50.3, targetTOverMIC = 80\<rparr>
        (Some \<lparr>drugAUC = Fin 0, inhibitorAUC = Fin 0, exposureRatio = Fin 0,
               inverseExposureRatio = Fin 0, percentTOverMIC = Fin 50,
               drugMinConc = Fin 0, inhibitorMinConc = Fin 0, kDrug = Fin 0,
               kInhibitor = Fin 0\<rparr>)
        [\<lparr>time = Fin 0, drug = Fin 3, inhibitor = Fin 0, mic = Fin 4\<rparr>,
         \<lparr>time = Fin 1, drug = Fin 30, inhibitor = Fin 0, mic = Fin 4\<rparr>]) = Some (Fin 45.3) \<and>
   map_option riskAssessment
     (calculateOptimization
        \<lparr>dosingInterval = 24, infusionTime = 1, halfLife = 6, maxConcentration = 100\<rparr>
        \<lparr>minEffectiveConc = 2, maxSafeConc = 50.3, targetTOverMIC = 80\<rparr>
        (Some \<lparr>drugAUC = Fin 0, inhibitorAUC = Fin 0, exposureRatio = Fin 0,
               inverseExposureRatio = Fin 0, percentTOverMIC = Fin 50,
               drugMinConc = Fin 0, inhibitorMinConc = Fin 0, kDrug = Fin 0,
               kInhibitor = Fin 0\<rparr>)
        [\<lparr>time = Fin 0, drug = Fin 3, inhibitor = Fin 0, mic = Fin 4\<rparr>,
         \<lparr>time = Fin 1, drug = Fin 30, inhibitor = Fin 0, mic = Fin 4\<rparr>]) = Some ''Low''"
proof -
  let ?dp = "\<lparr>dosingInterval = 24, infusionTime = 1, halfLife = 6, maxConcentration = 100\<rparr>"
  let ?tg = "\<lparr>minEffectiveConc = 2, maxSafeConc = 50.3, targetTOverMIC = 80\<rparr>"
  let ?r = "\<lparr>drugAUC = Fin 0, inhibitorAUC = Fin 0, exposureRatio = Fin 0,
              inverseExposureRatio = Fin 0, percentTOverMIC = Fin 50,
              drugMinConc = Fin 0, inhibitorMinConc = Fin 0, kDrug = Fin 0,
              kInhibitor = Fin 0\<rparr>"
  let ?cd = "[\<lparr>time = Fin 0, drug = Fin 3, inhibitor = Fin 0, mic = Fin 4\<rparr>,
              \<lparr>time = Fin 1, drug = Fin 30, inhibitor = Fin 0, mic = Fin 4\<rparr>]"
  have ratio: "percentTOverMIC ?r / Fin (targetTOverMIC ?tg) < Fin 0.8"
    by simp
  have ratio': "Fin 50 / Fin 80 < Fin 0.8"
    by simp
  have peak: "Math_max_of (map drug ?cd) < Fin (maxSafeConc ?tg) * Fin 0.8"
    by (simp add: Math_max_of_def Math_max_def)
  have peak': "Math_max_of (map drug ?cd) < Fin 50.3 * Fin 0.8"
    by (simp add: Math_max_of_def Math_max_def)
  have safe: "\<not> Math_min_of (map drug ?cd) < Fin (minEffectiveConc ?tg)"
    "\<not> Math_max_of (map drug ?cd) > Fin (maxSafeConc ?tg)"
    by (simp_all add: Math_max_of_def Math_max_def Math_min_of_def Math_min_def)
  have m: "Math_min (Fin 100 * Fin 1.3) (Fin 50.3 * Fin 0.9) = Fin 45.27"
    by (simp add: Math_min_def)
  have dose: "Math_round (Math_min (Fin (maxConcentration ?dp) * Fin 1.3)
                (Fin (maxSafeConc ?tg) * Fin 0.9) * Fin 10) / Fin 10 = Fin 45.3"
    by (simp add: Math_min_def)
  from calculateOptimization_undertreating [OF ratio peak, of ?dp] safe
  obtain rec where rec: "calculateOptimization ?dp ?tg (Some ?r) ?cd = Some rec"
    "recommendedDose rec = Fin 45.3" "riskAssessment rec = ''Low''"
    unfolding dose by blast
  show ?thesis
    using ratio' peak' m rec by simp
qed

section \<open>The samples of a run in exact arithmetic\<close>

text \<open>
  Read in exact arithmetic, the loop of a valid run takes \<open>\<lfloor>totalTime / timeStep\<rfloor> + 1\<close>
  samples, sample \<open>k\<close> at the time \<open>k \<cdot> timeStep\<close>, and pushes one value for each sample to
  each of the four arrays.
\<close>

lemma samples_on_exact_grid:
  assumes "violations dp = []" and "violations ip = []" and "0 < timeStep sp"
  shows "\<exists>st. finalState dp ip pd sp = Some st \<and>
           length (timePoints st) =
             nat (\<lfloor>real (numCycles sp) * dosingInterval dp / timeStep sp\<rfloor> + 1) \<and>
           length (drugConcentrations st) = length (timePoints st) \<and>
           length (inhibitorConcentrations st) = length (timePoints st) \<and>
           length (micValues st) = length (timePoints st) \<and>
           (\<forall>k<length (timePoints st).
              timePoints st ! k = Fin (real k * timeStep sp) \<and>
              drugConcentrations st ! k = concentrationAt dp (real k * timeStep sp) \<and>
              inhibitorConcentrations st ! k = concentrationAt ip (real k * timeStep sp) \<and>
              micValues st ! k = dynamicMIC pd (concentrationAt ip (real k * timeStep sp)))"
proof -
  let ?ts = "sampleTimes dp sp"
  let ?st = "stateOf dp ip pd sp ?ts"
  have D: "0 < dosingInterval dp"
    using assms(1) by (simp add: violations_empty)
  have fin: "finalState dp ip pd sp = Some ?st"
    using assms(3) D by (rule finalState_closed)
  have len: "length (timePoints ?st) =
      nat (\<lfloor>real (numCycles sp) * dosingInterval dp / timeStep sp\<rfloor> + 1)"
    by (simp add: sampleTimes_length)
  have nth: "timePoints ?st ! k = Fin (real k * timeStep sp) \<and>
              drugConcentrations ?st ! k = concentrationAt dp (real k * timeStep sp) \<and>
              inhibitorConcentrations ?st ! k = concentrationAt ip (real k * timeStep sp) \<and>
              micValues ?st ! k = dynamicMIC pd (concentrationAt ip (real k * timeStep sp))"
    if "k < length (timePoints ?st)" for k
  proof -
    from that have k: "k < length ?ts" by simp
    then show ?thesis
      by (simp add: sampleTimes_nth micAt_def)
  qed
  have "length (drugConcentrations ?st) = length (timePoints ?st)"
    "length (inhibitorConcentrations ?st) = length (timePoints ?st)"
    "length (micValues ?st) = length (timePoints ?st)"
    by simp_all
  with fin len nth show ?thesis
    by blast
qed

section \<open>The number of samples of the default run\<close>

declare excess_bits.simps [simp del]
declare grid64.simps [simp del]
declare walk64.simps [simp del]

lemma tenth_value: "tenth = 7205759403792794"
  by (simp add: tenth_def)

lemma tenth_nearest: "\<bar>real tenth / 2 ^ 56 - 1 / 10\<bar> \<le> 1 / 2 ^ 57"
  by (simp add: tenth_value)

lemma tenth_is_binary64: "round53 tenth = tenth"
  by (simp add: tenth_value round53_def Let_def excess_bits.simps)

lemma grid64_walk64:
  "walk64 fuel step totalTime t n = Some (m, b) \<Longrightarrow>
   \<exists>ts. grid64 fuel step totalTime t = Some ts \<and> n + length ts = m"
proof (induction fuel arbitrary: t n)
  case 0
  then show ?case by (simp add: walk64.simps)
next
  case (Suc fuel)
  show ?case
  proof (cases "t \<le> totalTime")
    case True
    with Suc.prems have "walk64 fuel step totalTime (add64 t step) (Suc n) = Some (m, b)"
      by (simp add: walk64.simps [of "Suc fuel"])
    from Suc.IH [OF this] obtain ts where
      "grid64 fuel step totalTime (add64 t step) = Some ts" "Suc n + length ts = m"
      by blast
    with True show ?thesis
      by (simp add: grid64.simps [of "Suc fuel"])
  next
    case False
    with Suc.prems show ?thesis
      by (simp add: walk64.simps [of "Suc fuel"] grid64.simps [of "Suc fuel"])
  qed
qed

lemma walk64_default:
  "walk64 1000 7205759403792794 5188146770730811392 0 0 = Some (720, 5188146770730824704)"
  by (simp add: walk64.simps add64_def round53_def Let_def excess_bits.simps)

lemma sampleTimes_default_length:
  "length (sampleTimes defaultDrugParams defaultSimParams) = 721"
  by (simp add: sampleTimes_length defaultDrugParams_def defaultSimParams_def)

text \<open>
  C5. With the default parameters (dosing interval 24, three cycles, time step
  \<^verbatim>\<open>0.1\<close>) the loop \<^verbatim>\<open>for (t = 0; t <= totalTime; t += timeStep)\<close> takes 720 samples
  in binary64 arithmetic: the 721st value of \<open>t\<close> is \<open>72.00000000000018\<close>, beyond
  \<open>totalTime = 72\<close>. In exact arithmetic it would take \<open>\<lfloor>72 / 0.1\<rfloor> + 1 = 721\<close>.
\<close>

theorem grid64_default_720_samples:
  "(\<exists>ts. grid64 1000 tenth hours72 0 = Some ts \<and> length ts = 720) \<and>
   walk64 1000 tenth hours72 0 0 = Some (720, 5188146770730824704) \<and>
   hours72 < 5188146770730824704 \<and>
   nat (\<lfloor>72 / (1 / 10 :: real)\<rfloor> + 1) = 721 \<and>
   length (sampleTimes defaultDrugParams defaultSimParams) = 721"
proof -
  have h: "hours72 = 5188146770730811392"
    by (simp add: hours72_def)
  have w: "walk64 1000 tenth hours72 0 0 = Some (720, 5188146770730824704)"
    unfolding tenth_value h by (rule walk64_default)
  from grid64_walk64 [OF w]
  have g: "\<exists>ts. grid64 1000 tenth hours72 0 = Some ts \<and> length ts = 720"
    by simp
  have "nat (\<lfloor>72 / (1 / 10 :: real)\<rfloor> + 1) = 721"
    by simp
  with g w h sampleTimes_default_length show ?thesis
    by simp
qed

end
